theory Spec2Isabelle
  imports Complex_Main
begin

section \<open>The ranking engine of the command-line ranker\<close>

text \<open>
  This theory embeds the scoring code of \<^verbatim>\<open>src/cli/lib/RankerNode.js\<close> and
  \<^verbatim>\<open>src/cli/lib/RankerOverallNode.js\<close>, and the cup registry of
  \<^verbatim>\<open>GameMasterNode\<close>.

  \<^bold>\<open>Numbers.\<close> Every JavaScript number is an IEEE double. The embedding uses the
  type \<^typ>\<open>real\<close> for the values. In the raw ratings, in the weight solver and in
  the cross-scenario aggregation the arithmetic operations are the correctly
  rounded ones of doubles (\<open>fadd\<close>, \<open>fsub\<close>, \<open>fmul\<close>, \<open>fdiv\<close>, below), a decimal
  literal such as \<^verbatim>\<open>0.1\<close> is the double nearest to it, and \<^verbatim>\<open>Math.pow\<close>, which
  the language leaves to the implementation, is a parameter (\<open>mathPow\<close>, below).
  \<^verbatim>\<open>Math.floor\<close> is \<^term>\<open>floor\<close> and \<^verbatim>\<open>Math.round\<close> is \<^term>\<open>round\<close>; both are exact
  on a double and round a half upwards. The initial average of the battle loop
  and the finalizer are written with the exact operations on reals. The range
  of the exponent of a double is followed where a string is converted to a
  number and nowhere else: the scores are far from overflow and underflow. Of
  the non-finite doubles only the \<^verbatim>\<open>NaN\<close> of the solver is followed (see
  there): where the JavaScript divides by zero elsewhere the result is \<^verbatim>\<open>NaN\<close>
  or an infinity, whereas the quotient of reals is \<open>0\<close>, and theorems whose
  statement depends on such a quotient carry the hypothesis that the divisor is
  positive.

  \<^bold>\<open>Objects.\<close> A contestant is one mutable JavaScript object that is put in the
  candidate pool and, usually, in the target pool as well; the combat resolver
  mutates it in place. The embedding keeps the objects in a store indexed by
  references; the two pools are lists of references.
\<close>

subsection \<open>Data model\<close>

record move =
  moveId :: string
  power :: real
  stab :: "real option"
  energy :: "real option"
  energyGain :: real
  cooldown :: real

text \<open>
  The fields of a \<^verbatim>\<open>Pokemon\<close> object that the ranker reads or writes. The class
  itself lives in the battle library, outside the files at hand;
  \<^verbatim>\<open>hasTag(t)\<close> is membership in \<open>tags\<close> and \<^verbatim>\<open>knowsMove(m)\<close> membership in
  \<open>movePool\<close>. \<^verbatim>\<open>initPokemonList\<close> selects moves for every contestant before it
  enters a pool, so \<open>fastMove\<close> is always present; an undefined
  \<^verbatim>\<open>weightModifier\<close> is \<open>None\<close>.
\<close>

record pokemon =
  speciesId :: string
  dex :: int
  types :: "string list"
  tags :: "string list"
  movePool :: "string list"
  stats_hp :: real
  stats_atk :: real
  hp :: real
  shields :: real
  startingShields :: real
  startEnergy :: real
  weightModifier :: "real option"
  fastMove :: move
  chargedMoves :: "move option list"
  shadowAtkMult :: "real option"

record scenario =
  slug :: string
  scenario_shields :: "real \<times> real"
  scenario_energy :: "real \<times> real"

text \<open>One entry of \<^verbatim>\<open>rankObj.matches\<close>. The move-usage tables, which no score
  depends on, are left out. \<open>match_score\<close> and \<open>match_opScore\<close> are the fields
  \<^verbatim>\<open>score\<close> and \<^verbatim>\<open>opScore\<close> that the solver adds; \<open>None\<close> is undefined (before
  the solver runs) or \<^verbatim>\<open>NaN\<close>.\<close>

record match =
  opponent :: string
  rating :: real
  adjRating :: real
  opRating :: real
  adjOpRating :: real
  match_score :: "real option"
  match_opScore :: "real option"

text \<open>A ranking object; \<open>rank_score\<close> is the field \<^verbatim>\<open>score\<close> set by the finalizer.
  The solver can push \<^verbatim>\<open>NaN\<close> onto \<^verbatim>\<open>scores\<close> (when it divides zero by a best
  score of zero); such an entry is \<open>None\<close>.\<close>

record rankObj =
  rank_speciesId :: string
  rank_rating :: real
  rank_matches :: "match list"
  rank_scores :: "real option list"
  rank_score :: real

type_synonym ref = nat
type_synonym heap = "ref \<Rightarrow> pokemon"

text \<open>
  The calls into the battle library made before each simulated pairing:
  \<^verbatim>\<open>Pokemon.reset()\<close>, \<^verbatim>\<open>Pokemon.setShields(n)\<close> and \<^verbatim>\<open>Battle.simulate()\<close> on
  the two objects installed with \<^verbatim>\<open>setNewPokemon\<close>. Their code is not among the
  files, so they are parameters. \<open>simulate h p q\<close> is the store after the
  resolver has run with object \<open>p\<close> on side 0 and object \<open>q\<close> on side 1.
\<close>

record engine =
  reset :: "pokemon \<Rightarrow> pokemon"
  setShields :: "pokemon \<Rightarrow> real \<Rightarrow> pokemon"
  simulate :: "heap \<Rightarrow> ref \<Rightarrow> ref \<Rightarrow> heap"

subsection \<open>Arithmetic on doubles\<close>

text \<open>Rounding to the nearest integer, a half going to the even neighbour.\<close>

definition rne :: "real \<Rightarrow> int" where
  "rne q = (let n = \<lfloor>q\<rfloor>; r = q - of_int n
            in if r < 1/2 then n else if 1/2 < r then n + 1
               else if even n then n else n + 1)"

text \<open>Rounding to the nearest double: 53 significant bits, ties to even. The
  range of the exponent is not limited; the numbers at hand are far from
  overflow and underflow.\<close>

definition fl :: "real \<Rightarrow> real" where
  "fl x = (if x = 0 then 0
           else let e = \<lfloor>log 2 \<bar>x\<bar>\<rfloor> - 52
                in of_int (rne (x / 2 powr of_int e)) * 2 powr of_int e)"

definition fadd :: "real \<Rightarrow> real \<Rightarrow> real" where
  "fadd x y = fl (x + y)"

definition fsub :: "real \<Rightarrow> real \<Rightarrow> real" where
  "fsub x y = fl (x - y)"

definition fmul :: "real \<Rightarrow> real \<Rightarrow> real" where
  "fmul x y = fl (x * y)"

definition fdiv :: "real \<Rightarrow> real \<Rightarrow> real" where
  "fdiv x y = fl (x / y)"

text \<open>
  \<^verbatim>\<open>Math.pow(x, y)\<close> as the code calls it: on a base that is not negative, and
  with a positive exponent when the base is 0. The language fixes the result
  for the exponent 0, which is 1, and for the base 0, which is 0. Everywhere
  else the result is an approximation of the power that is left to the
  implementation: it is the parameter \<open>pw\<close>, whose value is rounded to the
  nearest double.
\<close>

definition mathPow :: "(real \<Rightarrow> real \<Rightarrow> real) \<Rightarrow> real \<Rightarrow> real \<Rightarrow> real" where
  "mathPow pw x y = (if y = 0 then 1 else if x = 0 then 0 else fl (pw x y))"

subsection \<open>Battle orchestration: \<^verbatim>\<open>RankerNode.rank\<close>\<close>

text \<open>\<^verbatim>\<open>x || 1\<close> on a number: zero is falsy.\<close>

definition or_one :: "real \<Rightarrow> real" where
  "or_one x = (if x = 0 then 1 else x)"

definition setEnergyAdvantage :: "pokemon \<Rightarrow> real \<Rightarrow> pokemon" where
  "setEnergyAdvantage pokemon turns =
     (if turns = 0 then pokemon\<lparr>startEnergy := 0\<rparr>
      else
        let fastMoveCount = max 1 (of_int \<lfloor>(turns * 500) / cooldown (fastMove pokemon)\<rfloor>)
        in pokemon\<lparr>startEnergy := min (energyGain (fastMove pokemon) * fastMoveCount) 100\<rparr>)"

text \<open>Lines 394--397, in double precision.\<close>

definition healthRating :: "pokemon \<Rightarrow> real" where
  "healthRating pokemon = fdiv (hp pokemon) (stats_hp pokemon)"

definition damageRating :: "pokemon \<Rightarrow> real" where
  "damageRating opp = fdiv (fsub (stats_hp opp) (hp opp)) (stats_hp opp)"

text \<open>Lines 399--400: the raw rating of the side \<open>pokemon\<close> against \<open>opp\<close>.\<close>

definition rawRating :: "pokemon \<Rightarrow> pokemon \<Rightarrow> real" where
  "rawRating pokemon opp =
     of_int \<lfloor>fmul (fadd (healthRating pokemon) (damageRating opp)) 500\<rfloor>"

text \<open>Lines 403--409: the pair \<open>(winMultiplier, opWinMultiplier)\<close>.\<close>

definition winMultipliers :: "real \<Rightarrow> real \<Rightarrow> real \<times> real" where
  "winMultipliers rating' opRating' =
     (let winMultiplier = (if rating' > opRating' then 1 else 0);
          opWinMultiplier = (if rating' > opRating' then 0 else 1)
      in if rating' = 500 then (0, 0) else (winMultiplier, opWinMultiplier))"

text \<open>Lines 393--427: the match recorded from the two objects as the resolver
  left them.\<close>

definition pairingResult :: "pokemon \<Rightarrow> pokemon \<Rightarrow> match" where
  "pairingResult pokemon opp =
     (let rating' = rawRating pokemon opp;
          opRating' = rawRating opp pokemon;
          (winMultiplier, opWinMultiplier) = winMultipliers rating' opRating';
          adjRating' = rating'
            + (100 * (startingShields opp - shields opp) * winMultiplier)
            + (100 * shields pokemon * winMultiplier);
          adjOpRating' = opRating'
            + (100 * (startingShields pokemon - shields pokemon) * opWinMultiplier)
            + (100 * shields opp * opWinMultiplier)
      in \<lparr>opponent = speciesId opp, rating = rating', adjRating = adjRating',
          opRating = opRating', adjOpRating = adjOpRating',
          match_score = None, match_opScore = None\<rparr>)"

text \<open>Lines 375--391: set both objects up in the store and run the resolver.\<close>

definition runBattle :: "engine \<Rightarrow> scenario \<Rightarrow> heap \<Rightarrow> ref \<Rightarrow> ref \<Rightarrow> heap" where
  "runBattle eng sc h p q =
     (let h1 = h(p := reset eng (h p));
          h2 = h1(q := reset eng (h1 q));
          h3 = h2(p := setShields eng (h2 p) (fst (scenario_shields sc)));
          h4 = h3(q := setShields eng (h3 q) (snd (scenario_shields sc)));
          h5 = h4(p := setEnergyAdvantage (h4 p) (fst (scenario_energy sc)));
          h6 = h5(q := setEnergyAdvantage (h5 q) (snd (scenario_energy sc)))
      in simulate eng h6 p q)"

text \<open>A simulated pairing: the store after the battle and the match pushed.\<close>

definition simulatePairing :: "engine \<Rightarrow> scenario \<Rightarrow> heap \<Rightarrow> ref \<Rightarrow> ref \<Rightarrow> heap \<times> match" where
  "simulatePairing eng sc h p q =
     (let h' = runBattle eng sc h p q in (h', pairingResult (h' p) (h' q)))"

text \<open>Lines 356--364: the match pushed when the mirrored pairing is reused.\<close>

definition mirroredMatch :: "string \<Rightarrow> match \<Rightarrow> match" where
  "mirroredMatch opp_id prev =
     \<lparr>opponent = opp_id, rating = opRating prev, adjRating = adjOpRating prev,
      opRating = rating prev, adjOpRating = adjRating prev,
      match_score = None, match_opScore = None\<rparr>"

text \<open>Lines 353--355: the test that guards the reuse, for candidate \<open>i\<close> and
  target \<open>n\<close>. \<^verbatim>\<open>rankings[n]\<close> and \<^verbatim>\<open>rankings[n].matches[i]\<close> are objects when
  they exist, hence truthy.\<close>

definition canReuse :: "scenario \<Rightarrow> ref list \<Rightarrow> ref list \<Rightarrow> rankObj list \<Rightarrow> nat \<Rightarrow> nat \<Rightarrow> bool" where
  "canReuse sc pokemonList targets rankings i n \<longleftrightarrow>
     n < length rankings \<and> length pokemonList = length targets
     \<and> fst (scenario_shields sc) = snd (scenario_shields sc)
     \<and> fst (scenario_energy sc) = snd (scenario_energy sc)
     \<and> i < length (rank_matches (rankings ! n))"

text \<open>One turn of the inner loop (lines 346--432). The state is the store,
  the matches pushed so far, the running sum \<open>avg\<close> and \<open>totalBattles\<close>.\<close>

definition rankPairing ::
  "engine \<Rightarrow> scenario \<Rightarrow> ref list \<Rightarrow> ref list \<Rightarrow> rankObj list \<Rightarrow> nat \<Rightarrow> nat
   \<Rightarrow> heap \<times> match list \<times> real \<times> nat \<Rightarrow> heap \<times> match list \<times> real \<times> nat" where
  "rankPairing eng sc pokemonList targets rankings i n st =
     (case st of (h, matches, avg, totalBattles) \<Rightarrow>
        let pokemon = pokemonList ! i;
            opp = targets ! n;
            isMirror = (speciesId (h opp) = speciesId (h pokemon))
        in if canReuse sc pokemonList targets rankings i n
           then
             let prev = rank_matches (rankings ! n) ! i
             in (h, matches @ [mirroredMatch (speciesId (h opp)) prev],
                 (if \<not> isMirror then avg + adjOpRating prev else avg), totalBattles)
           else
             let (h', m) = simulatePairing eng sc h pokemon opp
             in (h', matches @ [m],
                 (if \<not> isMirror then avg + adjRating m else avg), totalBattles + 1))"

text \<open>The inner loop and lines 434--444 for candidate \<open>i\<close>. The state is the
  store, the rankings pushed so far and \<open>totalBattles\<close>.\<close>

definition rankCandidate ::
  "engine \<Rightarrow> scenario \<Rightarrow> ref list \<Rightarrow> ref list \<Rightarrow> nat
   \<Rightarrow> heap \<times> rankObj list \<times> nat \<Rightarrow> heap \<times> rankObj list \<times> nat" where
  "rankCandidate eng sc pokemonList targets i st =
     (case st of (h, rankings, totalBattles) \<Rightarrow>
        let sid = speciesId (h (pokemonList ! i));
            (h', matches, avg, totalBattles') =
               fold (rankPairing eng sc pokemonList targets rankings i)
                    [0..<length targets] (h, [], 0, totalBattles);
            nonMirrorCount = real (length targets) - 1;
            avg' = of_int \<lfloor>avg / or_one nonMirrorCount\<rfloor>
        in (h', rankings @ [\<lparr>rank_speciesId = sid, rank_rating = avg',
                             rank_matches = matches, rank_scores = [Some avg'],
                             rank_score = 0\<rparr>], totalBattles'))"

text \<open>The outer loop (lines 325--445), started with no rankings and no battle.\<close>

definition rankBattles ::
  "engine \<Rightarrow> scenario \<Rightarrow> ref list \<Rightarrow> ref list \<Rightarrow> heap \<Rightarrow> heap \<times> rankObj list \<times> nat" where
  "rankBattles eng sc pokemonList targets h =
     fold (rankCandidate eng sc pokemonList targets) [0..<length pokemonList] (h, [], 0)"

subsection \<open>Eligibility rules: \<^verbatim>\<open>RankerNode.checkFilters\<close>\<close>

text \<open>The entries of \<^verbatim>\<open>filter.values\<close> are strings (types, tags, identities,
  moves) or numbers (the two ends of a dex range).\<close>

datatype jsval = Str string | Num real

record cupFilter =
  filterType :: string
  filter_values :: "jsval list"
  leagues :: "int list option"
  includeShadows :: bool

text \<open>\<^verbatim>\<open>s.replace(pat, '')\<close> with a string pattern: the first occurrence of
  \<open>pat\<close> is removed.\<close>

fun removeFirst :: "string \<Rightarrow> string \<Rightarrow> string" where
  "removeFirst pat [] = []"
| "removeFirst pat (c # cs) =
     (if take (length pat) (c # cs) = pat then drop (length pat) (c # cs)
      else c # removeFirst pat cs)"

text \<open>\<^verbatim>\<open>filter.values.includes(pokemon.types[k])\<close>; a missing type is
  \<^verbatim>\<open>undefined\<close>, which no value list contains.\<close>

definition includesType :: "cupFilter \<Rightarrow> pokemon \<Rightarrow> nat \<Rightarrow> bool" where
  "includesType f pokemon k \<longleftrightarrow>
     k < length (types pokemon) \<and> Str (types pokemon ! k) \<in> set (filter_values f)"

text \<open>
  The comparisons of the \<^verbatim>\<open>dex\<close> rule have a number on the left, so that the
  language converts the other operand to a number. What follows is that
  conversion: its result is a double, an infinity (\<open>True\<close> for the positive one)
  or \<^verbatim>\<open>NaN\<close>.
\<close>

datatype jsnumber = Double real | Infinity bool | NaN

text \<open>The double nearest to a real number, with the range of the exponent:
  below \<open>2^-1022\<close> the doubles are \<open>2^-1074\<close> apart, and a result of \<open>2^1024\<close>
  or more is an infinity.\<close>

definition toDouble :: "real \<Rightarrow> jsnumber" where
  "toDouble x =
     (if \<bar>x\<bar> < 1 / 2 ^ 1022 then Double (of_int (rne (x * 2 ^ 1074)) / 2 ^ 1074)
      else if 2 ^ 1024 \<le> \<bar>fl x\<bar> then Infinity (0 < x)
      else Double (fl x))"

text \<open>The conversion of a string, \<^verbatim>\<open>StringToNumber\<close>: white space around the
  literal is dropped (the characters are code points below 256); the empty
  string is 0; a literal is a binary, octal or hexadecimal integer without
  sign, or a decimal literal, with an optional sign, made of digits with an
  optional fraction and an optional exponent, or \<^verbatim>\<open>Infinity\<close>; anything else is
  \<^verbatim>\<open>NaN\<close>.\<close>

definition isWhiteSpace :: "char \<Rightarrow> bool" where
  "isWhiteSpace c \<longleftrightarrow> (of_char c :: nat) \<in> {9, 10, 11, 12, 13, 32, 160}"

definition trimSpace :: "string \<Rightarrow> string" where
  "trimSpace s = rev (dropWhile isWhiteSpace (rev (dropWhile isWhiteSpace s)))"

definition digitValue :: "nat \<Rightarrow> char \<Rightarrow> nat option" where
  "digitValue radix c =
     (let n = (of_char c :: nat);
          v = (if 48 \<le> n \<and> n \<le> 57 then Some (n - 48)
               else if 97 \<le> n \<and> n \<le> 102 then Some (n - 87)
               else if 65 \<le> n \<and> n \<le> 70 then Some (n - 55)
               else None)
      in case v of None \<Rightarrow> None | Some d \<Rightarrow> if d < radix then Some d else None)"

definition digitsValue :: "nat \<Rightarrow> string \<Rightarrow> nat option" where
  "digitsValue radix s =
     (if s = [] \<or> (\<exists>c \<in> set s. digitValue radix c = None) then None
      else Some (foldl (\<lambda>a c. a * radix + the (digitValue radix c)) 0 s))"

definition exponentValue :: "string \<Rightarrow> int option" where
  "exponentValue s =
     (case s of
        [] \<Rightarrow> None
      | c # cs \<Rightarrow>
          if c = CHR ''+'' then map_option int (digitsValue 10 cs)
          else if c = CHR ''-'' then map_option (\<lambda>n. - int n) (digitsValue 10 cs)
          else map_option int (digitsValue 10 s))"

definition mantissaValue :: "string \<Rightarrow> real option" where
  "mantissaValue s =
     (let whole = takeWhile (\<lambda>c. c \<noteq> CHR ''.'') s;
          rest = dropWhile (\<lambda>c. c \<noteq> CHR ''.'') s
      in case rest of
           [] \<Rightarrow> map_option real (digitsValue 10 whole)
         | _ # fraction \<Rightarrow>
             if whole = [] \<and> fraction = [] then None
             else
               (case (if whole = [] then Some 0 else digitsValue 10 whole,
                      if fraction = [] then Some 0 else digitsValue 10 fraction) of
                  (Some w, Some f) \<Rightarrow> Some (real w + real f / 10 ^ length fraction)
                | _ \<Rightarrow> None))"

definition isExponentMark :: "char \<Rightarrow> bool" where
  "isExponentMark c \<longleftrightarrow> c = CHR ''e'' \<or> c = CHR ''E''"

definition unsignedDecimal :: "string \<Rightarrow> jsnumber" where
  "unsignedDecimal s =
     (if s = ''Infinity'' then Infinity True
      else
        let mant = takeWhile (\<lambda>c. \<not> isExponentMark c) s;
            rest = dropWhile (\<lambda>c. \<not> isExponentMark c) s
        in case (mantissaValue mant, case rest of [] \<Rightarrow> Some 0 | _ # ex \<Rightarrow> exponentValue ex) of
             (Some m, Some e) \<Rightarrow>
               toDouble (if 0 \<le> e then m * 10 ^ nat e else m / 10 ^ nat (- e))
           | _ \<Rightarrow> NaN)"

definition negate :: "jsnumber \<Rightarrow> jsnumber" where
  "negate v = (case v of Double x \<Rightarrow> Double (- x) | Infinity pos \<Rightarrow> Infinity (\<not> pos) | NaN \<Rightarrow> NaN)"

definition nonDecimal :: "string \<Rightarrow> jsnumber option" where
  "nonDecimal s =
     (case s of
        z # x # ds \<Rightarrow>
          if z \<noteq> CHR ''0'' then None
          else
            let radix = (if x = CHR ''x'' \<or> x = CHR ''X'' then Some 16
                         else if x = CHR ''o'' \<or> x = CHR ''O'' then Some 8
                         else if x = CHR ''b'' \<or> x = CHR ''B'' then Some (2::nat)
                         else None)
            in (case radix of
                  None \<Rightarrow> None
                | Some r \<Rightarrow>
                    Some (case digitsValue r ds of
                            None \<Rightarrow> NaN
                          | Some n \<Rightarrow> toDouble (real n)))
      | _ \<Rightarrow> None)"

definition stringToNumber :: "string \<Rightarrow> jsnumber" where
  "stringToNumber str =
     (let s = trimSpace str
      in if s = [] then Double 0
         else case nonDecimal s of
                Some v \<Rightarrow> v
              | None \<Rightarrow>
                  if hd s = CHR ''+'' then unsignedDecimal (tl s)
                  else if hd s = CHR ''-'' then negate (unsignedDecimal (tl s))
                  else unsignedDecimal s)"

text \<open>\<^verbatim>\<open>filter.values[k]\<close> as a number; a missing entry is \<^verbatim>\<open>undefined\<close>, which
  converts to \<^verbatim>\<open>NaN\<close>.\<close>

definition toNumber :: "jsval \<Rightarrow> jsnumber" where
  "toNumber v = (case v of Str s \<Rightarrow> stringToNumber s | Num x \<Rightarrow> Double x)"

definition valueAt :: "jsval list \<Rightarrow> nat \<Rightarrow> jsnumber" where
  "valueAt vs k = (if k < length vs then toNumber (vs ! k) else NaN)"

text \<open>\<^verbatim>\<open>a >= v\<close> and \<^verbatim>\<open>a <= v\<close> for a finite number \<open>a\<close>; every comparison with
  \<^verbatim>\<open>NaN\<close> is false.\<close>

definition geNumber :: "real \<Rightarrow> jsnumber \<Rightarrow> bool" where
  "geNumber a v = (case v of Double b \<Rightarrow> a \<ge> b | Infinity pos \<Rightarrow> \<not> pos | NaN \<Rightarrow> False)"

definition leNumber :: "real \<Rightarrow> jsnumber \<Rightarrow> bool" where
  "leNumber a v = (case v of Double b \<Rightarrow> a \<le> b | Infinity pos \<Rightarrow> pos | NaN \<Rightarrow> False)"

text \<open>\<^verbatim>\<open>pokemon.dex >= filter.values[0] && pokemon.dex <= filter.values[1]\<close>.\<close>

definition inDexRange :: "cupFilter \<Rightarrow> pokemon \<Rightarrow> bool" where
  "inDexRange f pokemon \<longleftrightarrow>
     geNumber (of_int (dex pokemon)) (valueAt (filter_values f) 0)
     \<and> leNumber (of_int (dex pokemon)) (valueAt (filter_values f) 1)"

text \<open>The identity test of the \<^verbatim>\<open>id\<close> case (lines 254--259).\<close>

definition idMatches :: "cupFilter \<Rightarrow> pokemon \<Rightarrow> bool \<Rightarrow> bool" where
  "idMatches f pokemon isInclude \<longleftrightarrow>
     (let testId = (if \<not> isInclude \<or> includeShadows f
                    then removeFirst ''_xs'' (removeFirst ''_shadow'' (speciesId pokemon))
                    else speciesId pokemon)
      in Str testId \<in> set (filter_values f) \<or> Str (speciesId pokemon) \<in> set (filter_values f))"

text \<open>The body of the loop over one filter list (lines 219--274). \<open>len\<close> is
  \<^verbatim>\<open>filters.length\<close>; the state is \<open>(filtersMatched, requiredFilters,
  includeIdFilter)\<close>.\<close>

definition filterStep ::
  "pokemon \<Rightarrow> int \<Rightarrow> bool \<Rightarrow> nat \<Rightarrow> cupFilter \<Rightarrow> int \<times> int \<times> bool \<Rightarrow> int \<times> int \<times> bool" where
  "filterStep pokemon cp isInclude len f st =
     (case st of (filtersMatched, requiredFilters, includeIdFilter) \<Rightarrow>
        if (case leagues f of None \<Rightarrow> False | Some ls \<Rightarrow> cp \<notin> set ls)
        then (filtersMatched, requiredFilters - 1, includeIdFilter)
        else if filterType f = ''type'' then
          (if includesType f pokemon 0 \<or> includesType f pokemon 1
           then (filtersMatched + 1, requiredFilters, includeIdFilter)
           else st)
        else if filterType f = ''dex'' then
          (if inDexRange f pokemon
           then (filtersMatched + 1, requiredFilters, includeIdFilter)
           else st)
        else if filterType f = ''tag'' then
          (if \<exists>t \<in> set (tags pokemon). Str t \<in> set (filter_values f)
           then (filtersMatched + 1, requiredFilters, includeIdFilter)
           else st)
        else if filterType f = ''id'' then
          (let requiredFilters' =
                 (if isInclude \<and> len > 1 then requiredFilters - 1 else requiredFilters)
           in if idMatches f pokemon isInclude
              then (filtersMatched + int len, requiredFilters',
                    (if isInclude then True else includeIdFilter))
              else (filtersMatched, requiredFilters', includeIdFilter))
        else if filterType f = ''move'' then
          (if \<exists>mv \<in> set (movePool pokemon). Str mv \<in> set (filter_values f)
           then (filtersMatched + 1, requiredFilters, includeIdFilter)
           else st)
        else st)"

definition runFilters ::
  "pokemon \<Rightarrow> int \<Rightarrow> bool \<Rightarrow> cupFilter list \<Rightarrow> bool \<Rightarrow> int \<times> int \<times> bool" where
  "runFilters pokemon cp isInclude filters includeIdFilter =
     fold (filterStep pokemon cp isInclude (length filters)) filters
          (0, int (length filters), includeIdFilter)"

definition checkFilters :: "pokemon \<Rightarrow> cupFilter list \<Rightarrow> cupFilter list \<Rightarrow> int \<Rightarrow> bool" where
  "checkFilters pokemon include exclude cp =
     (let (matched_in, required_in, includeIdFilter) = runFilters pokemon cp True include False;
          allowed = (matched_in \<ge> required_in);
          (matched_ex, required_ex, includeIdFilter') =
             runFilters pokemon cp False exclude includeIdFilter
      in if matched_ex > 0 \<and> \<not> includeIdFilter' then False else allowed)"

subsection \<open>The cup registry: \<^verbatim>\<open>GameMasterNode\<close>\<close>

text \<open>
  The class \<^verbatim>\<open>GameMasterNode\<close> is listed in \<^verbatim>\<open>src/RANKINGS-CLI.md\<close>, after the
  manual. Of a cup definition the name and the two rule lists are kept; of the
  game master, the cups of \<^verbatim>\<open>data.cups\<close> and the names in \<^verbatim>\<open>customCups\<close>.
\<close>

record cup =
  cup_name :: string
  cup_include :: "cupFilter list"
  cup_exclude :: "cupFilter list"

record gameMaster =
  cups :: "cup list"
  customCups :: "string list"

text \<open>\<^verbatim>\<open>xs.findIndex(p)\<close>; \<open>None\<close> is the result \<^verbatim>\<open>-1\<close>.\<close>

fun findIndex :: "('a \<Rightarrow> bool) \<Rightarrow> 'a list \<Rightarrow> nat option" where
  "findIndex p [] = None"
| "findIndex p (x # xs) =
     (if p x then Some 0 else map_option Suc (findIndex p xs))"

text \<open>\<^verbatim>\<open>registerCustomCup(cupDef)\<close>: a cup of the same name is replaced, a new
  name is appended; the name is recorded as custom in both cases.\<close>

definition registerCustomCup :: "gameMaster \<Rightarrow> cup \<Rightarrow> gameMaster" where
  "registerCustomCup gm cupDef =
     (let cups' = (case findIndex (\<lambda>c. cup_name c = cup_name cupDef) (cups gm) of
                     Some existingIndex \<Rightarrow> (cups gm)[existingIndex := cupDef]
                   | None \<Rightarrow> cups gm @ [cupDef])
      in gm\<lparr>cups := cups', customCups := customCups gm @ [cup_name cupDef]\<rparr>)"

text \<open>\<^verbatim>\<open>getCupById(id)\<close>; \<open>None\<close> is \<^verbatim>\<open>undefined\<close>.\<close>

definition getCupById :: "gameMaster \<Rightarrow> string \<Rightarrow> cup option" where
  "getCupById gm cupId = find (\<lambda>c. cup_name c = cupId) (cups gm)"

definition isCustomCup :: "gameMaster \<Rightarrow> string \<Rightarrow> bool" where
  "isCustomCup gm cupName \<longleftrightarrow> cupName \<in> set (customCups gm)"

text \<open>\<open>TypeError\<close>: the JavaScript dereferences \<^verbatim>\<open>undefined\<close> and throws.
  \<open>NonFinite\<close>: the JavaScript goes on with \<^verbatim>\<open>NaN\<close> or an infinity, which the
  embedding does not follow.\<close>

datatype error = TypeError | NonFinite

subsection \<open>The iterative weight solver: \<^verbatim>\<open>RankerNode.weightMatchups\<close>\<close>

text \<open>
  The quotient \<^verbatim>\<open>rankings[j].scores[n] / bestScore\<close> is the one place where the
  solver can leave the finite numbers: a missing score or a best score that is
  \<^verbatim>\<open>NaN\<close> gives \<^verbatim>\<open>NaN\<close>, and a best score of 0 gives \<^verbatim>\<open>NaN\<close> for a score of 0
  and \<^verbatim>\<open>-Infinity\<close> for a negative one. (A positive score over a best score
  of 0 would be \<^verbatim>\<open>+Infinity\<close>; it makes the candidate's score \<^verbatim>\<open>NaN\<close> and
  fails the cutoff test exactly as \<^verbatim>\<open>NaN\<close> does, and is put with it.) In what
  follows a \<open>real option\<close> is a double that is finite or \<^verbatim>\<open>NaN\<close>, and the
  operations are those of doubles.
\<close>

datatype ratio = Finite real | MinusInfinity | NotANumber

definition scoreRatio :: "real option \<Rightarrow> real option \<Rightarrow> ratio" where
  "scoreRatio s best =
     (case (s, best) of
        (Some x, Some b) \<Rightarrow>
          if b \<noteq> 0 then Finite (fdiv x b)
          else if x < 0 then MinusInfinity else NotANumber
      | _ \<Rightarrow> NotANumber)"

definition jsAdd :: "real option \<Rightarrow> real option \<Rightarrow> real option" where
  "jsAdd a b = (case (a, b) of (Some x, Some y) \<Rightarrow> Some (fadd x y) | _ \<Rightarrow> None)"

definition jsMul :: "real option \<Rightarrow> real option \<Rightarrow> real option" where
  "jsMul a b = (case (a, b) of (Some x, Some y) \<Rightarrow> Some (fmul x y) | _ \<Rightarrow> None)"

text \<open>\<^verbatim>\<open>rankings[j].scores[n]\<close>; undefined behaves as \<^verbatim>\<open>NaN\<close> in arithmetic.\<close>

definition scoreAt :: "rankObj \<Rightarrow> nat \<Rightarrow> real option" where
  "scoreAt r n = (if n < length (rank_scores r) then rank_scores r ! n else None)"

text \<open>Line 498: \<^verbatim>\<open>Math.max(...rankings.map(r => r.scores[n]))\<close>, which is
  \<^verbatim>\<open>NaN\<close> as soon as one argument is. Without rankings it is \<^verbatim>\<open>-Infinity\<close>,
  which nothing reads, there being no candidate.\<close>

definition jsMax :: "real option \<Rightarrow> real option \<Rightarrow> real option" where
  "jsMax a b = (case (a, b) of (Some x, Some y) \<Rightarrow> Some (max x y) | _ \<Rightarrow> None)"

definition bestScore :: "rankObj list \<Rightarrow> nat \<Rightarrow> real option" where
  "bestScore rankings n =
     (case map (\<lambda>r. scoreAt r n) rankings of
        [] \<Rightarrow> None
      | x # xs \<Rightarrow> fold (\<lambda>y acc. jsMax acc y) xs x)"

text \<open>\<^verbatim>\<open>0.1 + rankCutoffIncrease * n\<close>, with \<^verbatim>\<open>rankCutoffIncrease = 0.06\<close>.\<close>

definition cutoff :: "nat \<Rightarrow> real" where
  "cutoff n = fadd (fl (1/10)) (fmul (fl (6/100)) (real n))"

text \<open>Lines 509--512: \<^verbatim>\<open>Math.pow(Math.max(ratio - cutoff, 0), 1.65)\<close>.\<close>

definition rankWeight :: "(real \<Rightarrow> real \<Rightarrow> real) \<Rightarrow> ratio \<Rightarrow> nat \<Rightarrow> real option" where
  "rankWeight pw q n =
     (case q of
        Finite x \<Rightarrow> Some (mathPow pw (max (fsub x (cutoff n)) 0) (fl (165/100)))
      | MinusInfinity \<Rightarrow> Some 0
      | NotANumber \<Rightarrow> None)"

text \<open>Line 553: \<^verbatim>\<open>ratio < 0.1 + rankCutoffIncrease * n\<close>.\<close>

definition belowCutoff :: "ratio \<Rightarrow> nat \<Rightarrow> bool" where
  "belowCutoff q n =
     (case q of Finite x \<Rightarrow> x < cutoff n | MinusInfinity \<Rightarrow> True | NotANumber \<Rightarrow> False)"

text \<open>Lines 530--542: the soft cap above 700 and the curve below 300.\<close>

definition shapeRating :: "(real \<Rightarrow> real \<Rightarrow> real) \<Rightarrow> real \<Rightarrow> real" where
  "shapeRating pw a =
     (let a1 = (if a > 700 then fadd 700 (mathPow pw (fsub a 700) (1/2)) else a);
          curveAdjustment = 300
      in if a1 < 300
         then mathPow pw 300 (fdiv (fadd curveAdjustment a1) (fadd 300 curveAdjustment))
         else a1)"

text \<open>Lines 506--528 for candidate \<open>i\<close> and pairing \<open>j\<close>: the weight from the
  target's standing, cleared for a self-pairing, times the target's weight
  modifier. \<open>cp\<close> is \<^verbatim>\<open>this.battle.getCP()\<close>.\<close>

definition baseWeight ::
  "(real \<Rightarrow> real \<Rightarrow> real) \<Rightarrow> pokemon list \<Rightarrow> pokemon list \<Rightarrow> int \<Rightarrow> string \<Rightarrow> nat \<Rightarrow> ratio
   \<Rightarrow> nat \<Rightarrow> nat \<Rightarrow> real option" where
  "baseWeight pw pokemonList targets cp cupName n q i j =
     (let weight0 = (if length pokemonList = length targets then rankWeight pw q n else Some 1);
          weight1 = (if speciesId (targets ! j) = speciesId (pokemonList ! i)
                     then Some 0 else weight0)
      in case weightModifier (targets ! j) of
           Some wm \<Rightarrow> jsMul weight1 (Some wm)
         | None \<Rightarrow> if cupName = ''all'' \<and> cp = 1500 then Some 0 else weight1)"

text \<open>Line 546: the factor \<^verbatim>\<open>1 + Math.pow(500 - adjRating, 2) / 20000\<close>.\<close>

definition switchPenalty :: "(real \<Rightarrow> real \<Rightarrow> real) \<Rightarrow> real \<Rightarrow> real" where
  "switchPenalty pw adj = fadd 1 (fdiv (mathPow pw (fsub 500 adj) 2) 20000)"

text \<open>Lines 544--547: the weight after the penalty of the \<^verbatim>\<open>switches\<close>
  scenario, applied to a rating under 500 only.\<close>

definition switchWeight ::
  "(real \<Rightarrow> real \<Rightarrow> real) \<Rightarrow> scenario \<Rightarrow> real \<Rightarrow> real option \<Rightarrow> real option" where
  "switchWeight pw sc adj weight =
     (if slug sc = ''switches'' \<and> adj < 500
      then jsMul weight (Some (switchPenalty pw adj)) else weight)"

text \<open>The body of the loop over the pairings of candidate \<open>i\<close> (lines
  506--558), for pairing \<open>j\<close>: the match as it is left, the summand \<open>sc\<close> and
  the weight added to \<open>weights\<close>.\<close>

definition weightPairing ::
  "(real \<Rightarrow> real \<Rightarrow> real) \<Rightarrow> pokemon list \<Rightarrow> pokemon list \<Rightarrow> int \<Rightarrow> string \<Rightarrow> scenario \<Rightarrow> nat
   \<Rightarrow> real option \<Rightarrow> rankObj list \<Rightarrow> nat \<Rightarrow> nat \<Rightarrow> match
   \<Rightarrow> error + (match \<times> real option \<times> real option)" where
  "weightPairing pw pokemonList targets cp cupName sc n best rankings i j m =
     (if length rankings \<le> j \<or> length targets \<le> j \<or> length pokemonList \<le> i
      then Inl TypeError
      else
        let q = scoreRatio (scoreAt (rankings ! j) n) best;
            weight = baseWeight pw pokemonList targets cp cupName n q i j;
            adj = shapeRating pw (adjRating m);
            weight' = switchWeight pw sc adj weight;
            s = jsMul (Some adj) weight';
            m' = m\<lparr>adjRating := adj, match_score := s,
                   match_opScore :=
                     map_option (\<lambda>w. fmul (adjOpRating m) (mathPow pw 4 w)) weight'\<rparr>;
            weight'' = (if belowCutoff q n then Some 0 else weight')
        in Inr (m', s, weight''))"

text \<open>The loop over the pairings, from index \<open>j\<close> on, with the running sums
  \<open>score\<close> and \<open>weights\<close>.\<close>

fun weightLoop ::
  "(nat \<Rightarrow> match \<Rightarrow> error + (match \<times> real option \<times> real option)) \<Rightarrow> nat \<Rightarrow> match list
   \<Rightarrow> real option \<Rightarrow> real option \<Rightarrow> error + (match list \<times> real option \<times> real option)" where
  "weightLoop step j [] score weights = Inr ([], score, weights)"
| "weightLoop step j (m # ms) score weights =
     (case step j m of
        Inl e \<Rightarrow> Inl e
      | Inr (m', s, w) \<Rightarrow>
          (case weightLoop step (Suc j) ms (jsAdd score s) (jsAdd weights w) of
             Inl e \<Rightarrow> Inl e
           | Inr (ms', score', weights') \<Rightarrow> Inr (m' # ms', score', weights')))"

text \<open>Line 561: \<^verbatim>\<open>Math.floor(score / (weights || 1))\<close>; \<^verbatim>\<open>NaN || 1\<close> is 1.\<close>

definition avgScore :: "real option \<Rightarrow> real option \<Rightarrow> real option" where
  "avgScore score weights =
     (case score of
        None \<Rightarrow> None
      | Some s \<Rightarrow>
          Some (of_int \<lfloor>fdiv s (case weights of None \<Rightarrow> 1 | Some w \<Rightarrow> or_one w)\<rfloor>))"

text \<open>Lines 501--562 for candidate \<open>i\<close>: its ranking object after the pass.\<close>

definition weightCandidate ::
  "(real \<Rightarrow> real \<Rightarrow> real) \<Rightarrow> pokemon list \<Rightarrow> pokemon list \<Rightarrow> int \<Rightarrow> string \<Rightarrow> scenario \<Rightarrow> nat
   \<Rightarrow> real option \<Rightarrow> rankObj list \<Rightarrow> nat \<Rightarrow> error + rankObj" where
  "weightCandidate pw pokemonList targets cp cupName sc n best rankings i =
     (case weightLoop (weightPairing pw pokemonList targets cp cupName sc n best rankings i) 0
             (rank_matches (rankings ! i)) (Some 0) (Some 0) of
        Inl e \<Rightarrow> Inl e
      | Inr (ms, score, weights) \<Rightarrow>
          Inr ((rankings ! i)\<lparr>rank_matches := ms,
                 rank_scores := rank_scores (rankings ! i) @ [avgScore score weights]\<rparr>))"

text \<open>One turn of the loop over the candidates, on the array as it stands.\<close>

definition candidateStep ::
  "(real \<Rightarrow> real \<Rightarrow> real) \<Rightarrow> pokemon list \<Rightarrow> pokemon list \<Rightarrow> int \<Rightarrow> string \<Rightarrow> scenario \<Rightarrow> nat
   \<Rightarrow> real option \<Rightarrow> nat \<Rightarrow> error + rankObj list \<Rightarrow> error + rankObj list" where
  "candidateStep pw pokemonList targets cp cupName sc n best i acc =
     (case acc of
        Inl e \<Rightarrow> Inl e
      | Inr rankings \<Rightarrow>
          (case weightCandidate pw pokemonList targets cp cupName sc n best rankings i of
             Inl e \<Rightarrow> Inl e
           | Inr r \<Rightarrow> Inr (rankings[i := r])))"

text \<open>Pass \<open>n\<close> (lines 498--563).\<close>

definition weightPass ::
  "(real \<Rightarrow> real \<Rightarrow> real) \<Rightarrow> pokemon list \<Rightarrow> pokemon list \<Rightarrow> int \<Rightarrow> string \<Rightarrow> scenario \<Rightarrow> nat
   \<Rightarrow> rankObj list \<Rightarrow> error + rankObj list" where
  "weightPass pw pokemonList targets cp cupName sc n rankings =
     fold (candidateStep pw pokemonList targets cp cupName sc n (bestScore rankings n))
          [0..<length rankings] (Inr rankings)"

text \<open>Line 492. The cup is the one that \<^verbatim>\<open>rank\<close> reads with
  \<^verbatim>\<open>this.battle.getCup()\<close>, where \<^verbatim>\<open>rankAll\<close> has installed it: for the cup data
  \<^verbatim>\<open>cupData\<close> found with \<^verbatim>\<open>getCupById\<close>, by \<^verbatim>\<open>setCup(cupData.name)\<close>, or by
  \<^verbatim>\<open>setCustomCup(cupData)\<close> when that name is \<^verbatim>\<open>custom\<close> (lines 49--53). Either
  way its name is \<^verbatim>\<open>cupData.name\<close>.\<close>

definition iterations :: "string \<Rightarrow> nat" where
  "iterations cupName = (if cupName = ''custom'' then 7 else 1)"

definition passStep ::
  "(real \<Rightarrow> real \<Rightarrow> real) \<Rightarrow> pokemon list \<Rightarrow> pokemon list \<Rightarrow> int \<Rightarrow> string \<Rightarrow> scenario \<Rightarrow> nat
   \<Rightarrow> error + rankObj list \<Rightarrow> error + rankObj list" where
  "passStep pw pokemonList targets cp cupName sc n acc =
     (case acc of
        Inl e \<Rightarrow> Inl e
      | Inr rankings \<Rightarrow> weightPass pw pokemonList targets cp cupName sc n rankings)"

text \<open>\<^verbatim>\<open>weightMatchups(rankings, scenario, cup)\<close>, with \<open>cupName\<close> for
  \<^verbatim>\<open>cup.name\<close>.\<close>

definition weightMatchups ::
  "(real \<Rightarrow> real \<Rightarrow> real) \<Rightarrow> pokemon list \<Rightarrow> pokemon list \<Rightarrow> int \<Rightarrow> rankObj list \<Rightarrow> scenario
   \<Rightarrow> string \<Rightarrow> error + rankObj list" where
  "weightMatchups pw pokemonList targets cp rankings sc cupName =
     fold (passStep pw pokemonList targets cp cupName sc) [0..<iterations cupName] (Inr rankings)"

subsection \<open>Scenario finalization: \<^verbatim>\<open>RankerNode.finalizeRankings\<close>\<close>

text \<open>\<^verbatim>\<open>x || d\<close> for a number that may be undefined.\<close>

definition orElse :: "real option \<Rightarrow> real \<Rightarrow> real" where
  "orElse x d = (case x of None \<Rightarrow> d | Some v \<Rightarrow> if v = 0 then d else v)"

text \<open>Lines 587--597: the factor applied to the score in the \<^verbatim>\<open>chargers\<close>
  scenario. Without an active charged move \<^verbatim>\<open>Math.min()\<close> is \<^verbatim>\<open>Infinity\<close>, and
  a negative base gives \<^verbatim>\<open>NaN\<close>; both are \<open>None\<close> here.\<close>

definition chargerFactor :: "pokemon \<Rightarrow> real option" where
  "chargerFactor pokemon =
     (let fm = fastMove pokemon;
          fastMoveDpt = (power fm * orElse (stab fm) 1 * orElse (shadowAtkMult pokemon) 1
                          * (stats_atk pokemon / 100)) / (cooldown fm / 500);
          activeChargedMoves = [m. Some m \<leftarrow> chargedMoves pokemon];
          energies = map (\<lambda>m. orElse (energy m) 100) activeChargedMoves
      in case energies of
           [] \<Rightarrow> None
         | e # es \<Rightarrow>
             let maxEnergyRemaining = 100 - fold min es e
             in if cooldown fm = 0 \<or> maxEnergyRemaining < 0 \<or> fastMoveDpt < 0 then None
                else Some (((maxEnergyRemaining / 100) powr (1/2)
                             * (fastMoveDpt / 5) powr (1/6)) powr (1/6)))"

text \<open>Lines 583--599 for one ranking and its contestant: the last solver
  score, adjusted in the \<^verbatim>\<open>chargers\<close> scenario. The movesets and the key
  matchups set in the same loop do not enter any score and are left out.\<close>

definition finalScore :: "scenario \<Rightarrow> pokemon \<Rightarrow> rankObj \<Rightarrow> error + rankObj" where
  "finalScore sc pokemon r =
     (if rank_scores r = [] then Inl NonFinite
      else
        case rank_scores r ! (length (rank_scores r) - 1) of
          None \<Rightarrow> Inl NonFinite
        | Some s \<Rightarrow>
            if slug sc = ''chargers''
            then (case chargerFactor pokemon of
                    None \<Rightarrow> Inl NonFinite
                  | Some c \<Rightarrow> Inr (r\<lparr>rank_score := s * c, rank_scores := []\<rparr>))
            else Inr (r\<lparr>rank_score := s, rank_scores := []\<rparr>))"

text \<open>The loop of lines 570--603 over the rankings and
  \<^verbatim>\<open>pokemonList[i]\<close>; a ranking without a contestant at its index throws.\<close>

fun finalScores :: "scenario \<Rightarrow> pokemon list \<Rightarrow> rankObj list \<Rightarrow> error + rankObj list" where
  "finalScores sc ps [] = Inr []"
| "finalScores sc [] (r # rs) = Inl TypeError"
| "finalScores sc (p # ps) (r # rs) =
     (case finalScore sc p r of
        Inl e \<Rightarrow> Inl e
      | Inr r' \<Rightarrow> (case finalScores sc ps rs of Inl e \<Rightarrow> Inl e | Inr rs' \<Rightarrow> Inr (r' # rs')))"

text \<open>\<^verbatim>\<open>rankings.sort((a, b) => b.score - a.score)\<close>: a stable sort by
  descending score.\<close>

definition sortByScore :: "rankObj list \<Rightarrow> rankObj list" where
  "sortByScore rankings = sort_key (\<lambda>r. - rank_score r) rankings"

text \<open>\<^verbatim>\<open>rankings[0]?.score || 1\<close>.\<close>

definition highestScore :: "rankObj list \<Rightarrow> real" where
  "highestScore rankings = (case rankings of [] \<Rightarrow> 1 | r # _ \<Rightarrow> or_one (rank_score r))"

text \<open>Lines 608--612.\<close>

definition scaleFloor :: "rankObj list \<Rightarrow> rankObj list" where
  "scaleFloor rankings =
     (let highest = highestScore rankings
      in map (\<lambda>r. r\<lparr>rank_score := of_int \<lfloor>(rank_score r / highest) * 1000\<rfloor> / 10\<rparr>) rankings)"

definition finalizeRankings :: "scenario \<Rightarrow> pokemon list \<Rightarrow> rankObj list \<Rightarrow> error + rankObj list" where
  "finalizeRankings sc pokemonList rankings =
     (case finalScores sc pokemonList rankings of
        Inl e \<Rightarrow> Inl e
      | Inr rs \<Rightarrow> Inr (scaleFloor (sortByScore rs)))"

text \<open>\<^verbatim>\<open>rank(league, scenario, progressCallback)\<close>: the battles, the solver
  and the finalizer, the two of them reading the contestants as the battles
  left them. \<open>cupName\<close> is the name of \<^verbatim>\<open>this.battle.getCup()\<close> and \<open>pw\<close> the
  power function of the implementation.\<close>

definition rank ::
  "engine \<Rightarrow> (real \<Rightarrow> real \<Rightarrow> real) \<Rightarrow> string \<Rightarrow> int \<Rightarrow> scenario \<Rightarrow> ref list \<Rightarrow> ref list \<Rightarrow> heap
   \<Rightarrow> error + heap \<times> rankObj list" where
  "rank eng pw cupName cp sc pokemonList targets h =
     (case rankBattles eng sc pokemonList targets h of
        (h', rankings, totalBattles) \<Rightarrow>
          (case weightMatchups pw (map h' pokemonList) (map h' targets) cp rankings sc cupName of
             Inl e \<Rightarrow> Inl e
           | Inr weighted \<Rightarrow>
               (case finalizeRankings sc (map h' pokemonList) weighted of
                  Inl e \<Rightarrow> Inl e
                | Inr final \<Rightarrow> Inr (h', final))))"

subsection \<open>Cross-scenario aggregation: \<^verbatim>\<open>RankerOverallNode.rankOverall\<close>\<close>









text \<open>The raw rating with exact quotients, sum and product, as the
  specification computes with it.\<close>

definition exactRating :: "pokemon \<Rightarrow> pokemon \<Rightarrow> real" where
  "exactRating pokemon opp =
     of_int \<lfloor>(hp pokemon / stats_hp pokemon
               + (stats_hp opp - hp opp) / stats_hp opp) * 500\<rfloor>"


subsection \<open>The solver's score in the words of the specification\<close>

text \<open>The score \<^verbatim>\<open>rankings[j].scores[n]\<close> as a number (0 where it is missing).\<close>

definition targetScore :: "rankObj list \<Rightarrow> nat \<Rightarrow> nat \<Rightarrow> real" where
  "targetScore rankings j n = (case scoreAt (rankings ! j) n of Some s \<Rightarrow> s | None \<Rightarrow> 0)"

text \<open>The weight of a pairing in the words of the specification: the power
  of the target's standing above the cutoff when the pools have the same size
  and 1 otherwise, times the target's weight modifier when it has one, and 0
  for a self-match and for a target below the cutoff.\<close>

definition claimedWeight ::
  "(real \<Rightarrow> real \<Rightarrow> real) \<Rightarrow> pokemon list \<Rightarrow> pokemon list \<Rightarrow> nat \<Rightarrow> real \<Rightarrow> rankObj list
   \<Rightarrow> nat \<Rightarrow> nat \<Rightarrow> real" where
  "claimedWeight pw pokemonList targets n best rankings i j =
     (if speciesId (targets ! j) = speciesId (pokemonList ! i)
         \<or> fdiv (targetScore rankings j n) best < cutoff n
      then 0
      else
        let w = (if length pokemonList = length targets
                 then mathPow pw (max 0 (fsub (fdiv (targetScore rankings j n) best) (cutoff n)))
                        (fl (165/100))
                 else 1)
        in case weightModifier (targets ! j) of Some wm \<Rightarrow> fmul w wm | None \<Rightarrow> w)"

text \<open>\<open>floor(\<Sum>(rating * weight) / \<Sum>(weight))\<close> over \<open>k\<close> pairings, with the
  denominator 1 when the weights add up to 0. The sums are taken in the order
  of the pairings, from 0.\<close>

definition weightedAverage :: "(nat \<Rightarrow> real) \<Rightarrow> (nat \<Rightarrow> real) \<Rightarrow> nat \<Rightarrow> real" where
  "weightedAverage r w k =
     (let num = foldl fadd 0 (map (\<lambda>j. fmul (r j) (w j)) [0..<k]);
          den = foldl fadd 0 (map w [0..<k])
      in of_int \<lfloor>fdiv num (if den = 0 then 1 else den)\<rfloor>)"

definition claimedScore ::
  "(real \<Rightarrow> real \<Rightarrow> real) \<Rightarrow> pokemon list \<Rightarrow> pokemon list \<Rightarrow> nat \<Rightarrow> real \<Rightarrow> rankObj list \<Rightarrow> nat
   \<Rightarrow> real" where
  "claimedScore pw pokemonList targets n best rankings i =
     weightedAverage (\<lambda>j. shapeRating pw (adjRating (rank_matches (rankings ! i) ! j)))
       (claimedWeight pw pokemonList targets n best rankings i)
       (length (rank_matches (rankings ! i)))"

text \<open>The weight with the two rules of the code that the specification's
  weight lacks: 0 for a target without weight modifier in the cup \<^verbatim>\<open>all\<close> at
  1500, and the penalty of the \<^verbatim>\<open>switches\<close> scenario on a rating under 500.\<close>

definition amendedWeight ::
  "(real \<Rightarrow> real \<Rightarrow> real) \<Rightarrow> pokemon list \<Rightarrow> pokemon list \<Rightarrow> int \<Rightarrow> string \<Rightarrow> scenario \<Rightarrow> nat
   \<Rightarrow> real \<Rightarrow> rankObj list \<Rightarrow> nat \<Rightarrow> nat \<Rightarrow> real" where
  "amendedWeight pw pokemonList targets cp cupName sc n best rankings i j =
     (let w = claimedWeight pw pokemonList targets n best rankings i j;
          shaped = shapeRating pw (adjRating (rank_matches (rankings ! i) ! j))
      in if weightModifier (targets ! j) = None \<and> cupName = ''all'' \<and> cp = 1500 then 0
         else if slug sc = ''switches'' \<and> shaped < 500 then fmul w (switchPenalty pw shaped)
         else w)"

definition amendedScore ::
  "(real \<Rightarrow> real \<Rightarrow> real) \<Rightarrow> pokemon list \<Rightarrow> pokemon list \<Rightarrow> int \<Rightarrow> string \<Rightarrow> scenario \<Rightarrow> nat
   \<Rightarrow> real \<Rightarrow> rankObj list \<Rightarrow> nat \<Rightarrow> real" where
  "amendedScore pw pokemonList targets cp cupName sc n best rankings i =
     weightedAverage (\<lambda>j. shapeRating pw (adjRating (rank_matches (rankings ! i) ! j)))
       (amendedWeight pw pokemonList targets cp cupName sc n best rankings i)
       (length (rank_matches (rankings ! i)))"

text \<open>The value of \<open>baseWeight\<close> at a finite ratio \<open>x\<close>, and the weight after
  the penalty.\<close>

definition realBase ::
  "(real \<Rightarrow> real \<Rightarrow> real) \<Rightarrow> pokemon list \<Rightarrow> pokemon list \<Rightarrow> int \<Rightarrow> string \<Rightarrow> nat \<Rightarrow> real
   \<Rightarrow> nat \<Rightarrow> nat \<Rightarrow> real" where
  "realBase pw pokemonList targets cp cupName n x i j =
     (let w0 = (if length pokemonList = length targets
                then mathPow pw (max (fsub x (cutoff n)) 0) (fl (165/100)) else 1);
          w1 = (if speciesId (targets ! j) = speciesId (pokemonList ! i) then 0 else w0)
      in case weightModifier (targets ! j) of
           Some wm \<Rightarrow> fmul w1 wm
         | None \<Rightarrow> if cupName = ''all'' \<and> cp = 1500 then 0 else w1)"

definition realWeight ::
  "(real \<Rightarrow> real \<Rightarrow> real) \<Rightarrow> pokemon list \<Rightarrow> pokemon list \<Rightarrow> int \<Rightarrow> string \<Rightarrow> scenario \<Rightarrow> nat
   \<Rightarrow> real \<Rightarrow> real \<Rightarrow> nat \<Rightarrow> nat \<Rightarrow> real" where
  "realWeight pw pokemonList targets cp cupName sc n x adj i j =
     (let b = realBase pw pokemonList targets cp cupName n x i j
      in if slug sc = ''switches'' \<and> adj < 500 then fmul b (switchPenalty pw adj) else b)"

subsection \<open>Invariants of the battle loops\<close>

definition symmetricConfig :: "scenario \<Rightarrow> ref list \<Rightarrow> ref list \<Rightarrow> bool" where
  "symmetricConfig sc pokemonList targets \<longleftrightarrow>
     length pokemonList = length targets
     \<and> fst (scenario_shields sc) = snd (scenario_shields sc)
     \<and> fst (scenario_energy sc) = snd (scenario_energy sc)"

text \<open>What the inner loop has pushed after \<open>k\<close> targets.\<close>

definition innerInv ::
  "ref list \<Rightarrow> ref list \<Rightarrow> rankObj list \<Rightarrow> nat \<Rightarrow> nat \<Rightarrow> nat \<Rightarrow> match list \<Rightarrow> nat \<Rightarrow> bool" where
  "innerInv pokemonList targets rankings i t k ms t' \<longleftrightarrow>
     length ms = k
     \<and> t' = t + (k - min k (length rankings))
     \<and> (\<forall>n < k. n < length rankings \<longrightarrow>
           (\<exists>opp. ms ! n = mirroredMatch opp (rank_matches (rankings ! n) ! i)))
     \<and> (\<forall>n < k. length rankings \<le> n \<longrightarrow>
           (\<exists>g. ms ! n = pairingResult (g (pokemonList ! i)) (g (targets ! n))))"

text \<open>What the outer loop has pushed after \<open>k\<close> candidates, \<open>t\<close> being
  \<open>totalBattles\<close>.\<close>

definition outerInv :: "ref list \<Rightarrow> ref list \<Rightarrow> nat \<Rightarrow> rankObj list \<Rightarrow> nat \<Rightarrow> bool" where
  "outerInv pokemonList targets k rankings t \<longleftrightarrow>
     length rankings = k
     \<and> (\<forall>r \<in> set rankings. length (rank_matches r) = length targets)
     \<and> 2 * t + k * k = 2 * k * length targets + k
     \<and> (\<forall>i < k. \<forall>n < i. \<exists>opp.
           rank_matches (rankings ! i) ! n = mirroredMatch opp (rank_matches (rankings ! n) ! i))
     \<and> (\<forall>i < k. \<exists>g.
           rank_matches (rankings ! i) ! i = pairingResult (g (pokemonList ! i)) (g (targets ! i)))"

subsection \<open>Concrete data for the examples\<close>

text \<open>A contestant with the given identity, maximal and current health,
  remaining and starting shields and weight modifier.\<close>

definition contestant :: "string \<Rightarrow> real \<Rightarrow> real \<Rightarrow> real \<Rightarrow> real \<Rightarrow> real option \<Rightarrow> pokemon" where
  "contestant sid maxHp curHp sh startSh wm =
     \<lparr>speciesId = sid, dex = 0, types = [], tags = [], movePool = [],
      stats_hp = maxHp, stats_atk = 100, hp = curHp, shields = sh,
      startingShields = startSh, startEnergy = 0, weightModifier = wm,
      fastMove = \<lparr>moveId = ''TACKLE'', power = 3, stab = None, energy = None,
                  energyGain = 3, cooldown = 500\<rparr>,
      chargedMoves = [], shadowAtkMult = None\<rparr>"


definition leadsScenario :: scenario where
  "leadsScenario = \<lparr>slug = ''leads'', scenario_shields = (1, 1), scenario_energy = (0, 0)\<rparr>"



definition typeRule :: "string list \<Rightarrow> cupFilter" where
  "typeRule ts = \<lparr>filterType = ''type'', filter_values = map Str ts,
                   leagues = None, includeShadows = False\<rparr>"

definition dexRule :: "jsval list \<Rightarrow> cupFilter" where
  "dexRule ends = \<lparr>filterType = ''dex'', filter_values = ends,
                    leagues = None, includeShadows = False\<rparr>"

definition idRule :: "string list \<Rightarrow> cupFilter" where
  "idRule ids = \<lparr>filterType = ''id'', filter_values = map Str ids,
                  leagues = None, includeShadows = False\<rparr>"

definition recorded :: "string \<Rightarrow> real \<Rightarrow> real \<Rightarrow> real \<Rightarrow> real \<Rightarrow> match" where
  "recorded opp r adj opr adjop =
     \<lparr>opponent = opp, rating = r, adjRating = adj, opRating = opr, adjOpRating = adjop,
      match_score = None, match_opScore = None\<rparr>"

definition weighted :: "string \<Rightarrow> real \<Rightarrow> real \<Rightarrow> real \<Rightarrow> real \<Rightarrow> real \<Rightarrow> real \<Rightarrow> match" where
  "weighted opp r adj opr adjop s ops =
     \<lparr>opponent = opp, rating = r, adjRating = adj, opRating = opr, adjOpRating = adjop,
      match_score = Some s, match_opScore = Some ops\<rparr>"

definition ranked :: "string \<Rightarrow> match list \<Rightarrow> real list \<Rightarrow> rankObj" where
  "ranked sid ms scs = \<lparr>rank_speciesId = sid, rank_rating = 0, rank_matches = ms,
                         rank_scores = map Some scs, rank_score = 0\<rparr>"

definition closersScenario :: scenario where
  "closersScenario = \<lparr>slug = ''closers'', scenario_shields = (0, 0), scenario_energy = (0, 0)\<rparr>"

definition poolOfThree :: "pokemon list" where
  "poolOfThree = [contestant ''azumarill'' 150 150 0 0 (Some 2),
                  contestant ''medicham'' 151 151 0 0 (Some 2),
                  contestant ''skarmory'' 140 140 0 0 (Some 1)]"

definition targetsOfTwo :: "pokemon list" where
  "targetsOfTwo = [contestant ''azumarill'' 150 150 0 0 (Some 2),
                   contestant ''medicham'' 151 151 0 0 (Some 2)]"

definition lopsided :: "rankObj list" where
  "lopsided =
     [ranked ''azumarill'' [recorded ''azumarill'' 500 500 500 500,
                            recorded ''medicham'' 950 950 50 50] [950],
      ranked ''medicham'' [recorded ''azumarill'' 50 50 950 950,
                           recorded ''medicham'' 500 500 500 500] [50],
      ranked ''skarmory'' [recorded ''azumarill'' 400 400 600 600,
                           recorded ''medicham'' 520 520 480 480] [920]]"

definition switchesScenario :: scenario where
  "switchesScenario = \<lparr>slug = ''switches'', scenario_shields = (0, 0), scenario_energy = (0, 0)\<rparr>"

definition switching :: "rankObj list" where
  "switching =
     [ranked ''azumarill'' [recorded ''azumarill'' 500 500 500 500,
                            recorded ''medicham'' 700 700 300 300] [700],
      ranked ''medicham'' [recorded ''azumarill'' 300 300 700 700,
                           recorded ''medicham'' 500 500 500 500] [300],
      ranked ''skarmory'' [recorded ''azumarill'' 400 400 600 600,
                           recorded ''medicham'' 600 600 400 400] [1000]]"

text \<open>A weight modifier as \<^verbatim>\<open>initPokemonList\<close> computes it from a ranking score,
  \<^verbatim>\<open>score / 100\<close>; two targets with the modifiers 1.1 and 2.2 in a pool of
  three; and rankings in which the third candidate draws both pairings.\<close>

definition modifier :: "real \<Rightarrow> real" where
  "modifier s = fdiv s 100"

definition poolOfModifiers :: "pokemon list" where
  "poolOfModifiers = [contestant ''azumarill'' 150 150 0 0 (Some (modifier 110)),
                      contestant ''medicham'' 151 151 0 0 (Some (modifier 220)),
                      contestant ''skarmory'' 140 140 0 0 (Some 1)]"

definition targetsOfModifiers :: "pokemon list" where
  "targetsOfModifiers = [contestant ''azumarill'' 150 150 0 0 (Some (modifier 110)),
                         contestant ''medicham'' 151 151 0 0 (Some (modifier 220))]"

definition level :: "rankObj list" where
  "level =
     [ranked ''azumarill'' [recorded ''azumarill'' 500 500 500 500,
                            recorded ''medicham'' 700 700 300 300] [700],
      ranked ''medicham'' [recorded ''azumarill'' 300 300 700 700,
                           recorded ''medicham'' 500 500 500 500] [300],
      ranked ''skarmory'' [recorded ''azumarill'' 500 500 500 500,
                           recorded ''medicham'' 500 500 500 500] [1000]]"

text \<open>A game master with one official cup, and two cups that a user
  defines.\<close>

definition officialMaster :: gameMaster where
  "officialMaster = \<lparr>cups = [\<lparr>cup_name = ''all'', cup_include = [], cup_exclude = []\<rparr>],
                      customCups = []\<rparr>"

definition myCup :: cup where
  "myCup = \<lparr>cup_name = ''mycup'', cup_include = [typeRule [''bug'', ''dark'']],
             cup_exclude = []\<rparr>"

definition adHocCup :: cup where
  "adHocCup = \<lparr>cup_name = ''custom'', cup_include = [typeRule [''bug'', ''dark'']],
                cup_exclude = []\<rparr>"

text \<open>A resolver for the examples: the contestant of smaller maximal health
  faints and the other keeps all its health; on equal maximal health both
  faint.\<close>

definition duelEngine :: engine where
  "duelEngine =
     \<lparr>reset = (\<lambda>p. p\<lparr>hp := stats_hp p\<rparr>),
      setShields = (\<lambda>p s. p\<lparr>shields := s, startingShields := s\<rparr>),
      simulate = (\<lambda>h p q.
         h(p := (h p)\<lparr>hp := (if stats_hp (h q) < stats_hp (h p) then hp (h p) else 0)\<rparr>,
           q := (h q)\<lparr>hp := (if stats_hp (h p) < stats_hp (h q) then hp (h q) else 0)\<rparr>))\<rparr>"

definition twoObjects :: heap where
  "twoObjects r = (if r = 0 then contestant ''azumarill'' 150 150 0 0 None
                   else contestant ''medicham'' 151 151 0 0 None)"

section \<open>Properties\<close>

subsection \<open>Rounding to doubles\<close>

lemma rne_error: "\<bar>of_int (rne q) - q\<bar> \<le> 1/2"
proof -
  have "of_int \<lfloor>q\<rfloor> \<le> q" "q < of_int \<lfloor>q\<rfloor> + 1" by linarith+
  then show ?thesis by (auto simp: rne_def Let_def)
qed

lemma rne_of_int [simp]: "rne (of_int z) = z"
  by (simp add: rne_def)

lemma fl_zero [simp]: "fl 0 = 0"
  by (simp add: fl_def)

lemma fl_error: "\<bar>fl x - x\<bar> \<le> \<bar>x\<bar> / 2 ^ 53"
proof (cases "x = 0")
  case True
  then show ?thesis by simp
next
  case False
  define e where "e = \<lfloor>log 2 \<bar>x\<bar>\<rfloor> - 52"
  define s :: real where "s = 2 powr of_int e"
  have s: "0 < s" by (simp add: s_def)
  have flx: "fl x = of_int (rne (x / s)) * s"
    using False by (simp add: fl_def e_def s_def Let_def)
  have "of_int (e + 52) \<le> log 2 \<bar>x\<bar>" by (simp add: e_def)
  then have "2 powr of_int (e + 52) \<le> \<bar>x\<bar>"
    using False by (simp add: le_log_iff)
  moreover have "2 powr of_int (e + 52) = s * 2 ^ 52"
    by (simp add: s_def powr_add)
  ultimately have big: "s * 2 ^ 52 \<le> \<bar>x\<bar>" by simp
  have "fl x - x = (of_int (rne (x / s)) - x / s) * s"
    using s by (simp add: flx algebra_simps)
  then have "\<bar>fl x - x\<bar> = \<bar>of_int (rne (x / s)) - x / s\<bar> * s"
    using s by (simp add: abs_mult)
  also have "\<dots> \<le> (1/2) * s"
    using rne_error [of "x / s"] s by (intro mult_right_mono) simp_all
  also have "\<dots> = (s * 2 ^ 52) / 2 ^ 53" by simp
  also have "\<dots> \<le> \<bar>x\<bar> / 2 ^ 53"
    using big by (intro divide_right_mono) simp_all
  finally show ?thesis .
qed

lemma fl_eval:
  fixes k :: nat
  assumes "2 ^ 52 \<le> \<bar>x\<bar> * 2 ^ k" and "\<bar>x\<bar> * 2 ^ k < 2 ^ 53"
  shows "fl x = of_int (rne (x * 2 ^ k)) / 2 ^ k"
proof -
  from assms(1) have nz: "x \<noteq> 0" by auto
  have p: "(2::real) powr (52 - real k) = 2 ^ 52 / 2 ^ k"
    by (simp add: powr_diff powr_realpow)
  have q: "(2::real) powr (53 - real k) = 2 ^ 53 / 2 ^ k"
    by (simp add: powr_diff powr_realpow)
  have "2 ^ 52 / 2 ^ k \<le> \<bar>x\<bar>"
    using assms(1) by (simp add: pos_divide_le_eq)
  then have "2 powr (52 - real k) \<le> \<bar>x\<bar>" by (simp only: p)
  then have lo: "of_int (52 - int k) \<le> log 2 \<bar>x\<bar>"
    using nz by (simp add: le_log_iff)
  have "\<bar>x\<bar> < 2 ^ 53 / 2 ^ k"
    using assms(2) by (simp add: pos_less_divide_eq)
  then have "\<bar>x\<bar> < 2 powr (53 - real k)" by (simp only: q)
  then have hi: "log 2 \<bar>x\<bar> < of_int (52 - int k) + 1"
    using nz by (simp add: log_less_iff)
  from lo hi have "\<lfloor>log 2 \<bar>x\<bar>\<rfloor> = 52 - int k" by (rule floor_unique)
  then have e: "\<lfloor>log 2 \<bar>x\<bar>\<rfloor> - 52 = - int k" by simp
  have s: "(2::real) powr (- real k) = 1 / 2 ^ k"
    by (simp add: powr_minus powr_realpow divide_inverse)
  show ?thesis
    using nz by (simp add: fl_def e s Let_def)
qed

lemma fl_of_int:
  assumes "\<bar>n\<bar> < 2 ^ 53"
  shows "fl (of_int n) = of_int n"
proof (cases "n = 0")
  case True
  then show ?thesis by simp
next
  case False
  define e where "e = \<lfloor>log 2 \<bar>of_int n :: real\<bar>\<rfloor> - 52"
  have "\<bar>of_int n :: real\<bar> < 2 ^ 53"
    using assms by (metis of_int_abs of_int_less_iff of_int_numeral of_int_power)
  then have "log 2 \<bar>of_int n :: real\<bar> < 53"
    using False by (simp add: log_less_iff powr_realpow)
  then have "\<lfloor>log 2 \<bar>of_int n :: real\<bar>\<rfloor> < 53" by (simp add: floor_less_iff)
  then have e: "e \<le> 0" by (simp add: e_def)
  define j where "j = nat (- e)"
  have ej: "e = - int j" using e by (simp add: j_def)
  have s: "(2::real) powr of_int e = 1 / 2 ^ j"
    by (simp add: ej powr_minus powr_realpow divide_inverse)
  have "of_int n / (2::real) powr of_int e = of_int (n * 2 ^ j)"
    by (simp add: s)
  then have "rne (of_int n / (2::real) powr of_int e) = n * 2 ^ j"
    by (simp only: rne_of_int)
  then show ?thesis
    using False by (simp add: fl_def e_def [symmetric] Let_def s)
qed

lemma fl_numeral [simp]: "numeral w < (2::int) ^ 53 \<Longrightarrow> fl (numeral w) = numeral w"
  using fl_of_int [of "numeral w"] by simp

lemma fl_one [simp]: "fl 1 = 1"
  using fl_of_int [of 1] by simp

lemma fl_nonneg:
  assumes "0 \<le> x"
  shows "0 \<le> fl x"
proof -
  have "x / 2 ^ 53 \<le> x"
    using assms by (simp add: field_simps)
  moreover have "\<bar>fl x - x\<bar> \<le> x / 2 ^ 53"
    using fl_error [of x] assms by simp
  ultimately show ?thesis by linarith
qed

lemma rne_near_even:
  assumes "even N" and "\<bar>x - of_int N\<bar> \<le> 1/2"
  shows "rne x = N"
proof -
  consider "x < of_int N" | "x = of_int N" | "of_int N < x" by linarith
  then show ?thesis
  proof cases
    case 1
    have pred: "(of_int (N - 1) :: real) = of_int N - 1" by simp
    have "of_int (N - 1) \<le> x" "x < of_int (N - 1) + 1"
      using assms(2) 1 unfolding pred by linarith+
    then have fl: "\<lfloor>x\<rfloor> = N - 1" by (rule floor_unique)
    have "1/2 \<le> x - of_int (N - 1)" using assms(2) 1 unfolding pred by linarith
    moreover have "odd (N - 1)" using assms(1) by simp
    ultimately show ?thesis unfolding rne_def fl Let_def by auto
  next
    case 2
    then show ?thesis by simp
  next
    case 3
    have "of_int N \<le> x" "x < of_int N + 1"
      using assms(2) 3 by linarith+
    then have fl: "\<lfloor>x\<rfloor> = N" by (rule floor_unique)
    have "x - of_int N \<le> 1/2" using assms(2) 3 by linarith
    then show ?thesis unfolding rne_def fl Let_def using assms(1) by auto
  qed
qed

lemma rne_ge: "of_int z \<le> x \<Longrightarrow> z \<le> rne x"
proof -
  assume "of_int z \<le> x"
  then have "z \<le> \<lfloor>x\<rfloor>" by (simp add: le_floor_iff)
  then show ?thesis by (auto simp: rne_def Let_def)
qed

lemma rne_le: "x \<le> of_int z \<Longrightarrow> rne x \<le> z"
proof (cases "x = of_int z")
  case True
  then show ?thesis by simp
next
  case False
  assume "x \<le> of_int z"
  with False have "x < of_int z" by simp
  then have "\<lfloor>x\<rfloor> < z" by (simp add: floor_less_iff)
  then show ?thesis by (auto simp: rne_def Let_def)
qed


lemma fl_small:
  assumes "0 < x" and "x < 1/2"
  shows "\<exists>j\<ge>54. fl x = of_int (rne (x * 2 ^ j)) / 2 ^ j"
proof -
  define e where "e = \<lfloor>log 2 \<bar>x\<bar>\<rfloor> - 52"
  have "x < 2 powr (-1)" using assms(2) by (simp add: powr_minus)
  then have "log 2 \<bar>x\<bar> < -1" using assms(1) by (simp add: log_less_iff)
  then have "\<lfloor>log 2 \<bar>x\<bar>\<rfloor> < -1" by (simp add: floor_less_iff)
  then have e: "e \<le> -54" by (simp add: e_def)
  define j where "j = nat (- e)"
  have ej: "e = - int j" and j: "54 \<le> j" using e by (simp_all add: j_def)
  have s: "(2::real) powr of_int e = 1 / 2 ^ j"
    by (simp add: ej powr_minus powr_realpow divide_inverse)
  have "fl x = of_int (rne (x / 2 powr of_int e)) * 2 powr of_int e"
    using assms(1) by (simp add: fl_def e_def Let_def)
  then have "fl x = of_int (rne (x * 2 ^ j)) / 2 ^ j"
    by (simp only: s) simp
  with j show ?thesis by blast
qed

lemma fl_grid_small:
  assumes "0 \<le> s" and "s < 1/2" and "\<bar>s - of_int J / 2 ^ 53\<bar> \<le> 1 / 2 ^ 54"
  shows "\<bar>fl s - of_int J / 2 ^ 53\<bar> \<le> 1 / 2 ^ 54"
proof (cases "s = 0")
  case True
  with assms(3) show ?thesis by simp
next
  case False
  with assms(1) have pos: "0 < s" by simp
  from fl_small [OF pos assms(2)] obtain j
    where j: "54 \<le> j" and fls: "fl s = of_int (rne (s * 2 ^ j)) / 2 ^ j" by blast
  define i where "i = j - 54"
  have ji: "j = 54 + i" using j by (simp add: i_def)
  have pj: "(2::real) ^ j = 2 ^ 54 * 2 ^ i" by (simp add: ji power_add)
  define c :: real where "c = of_int J / 2 ^ 53"
  have lo: "of_int ((2 * J - 1) * 2 ^ i) = (c - 1 / 2 ^ 54) * 2 ^ j"
    by (simp add: c_def pj field_simps)
  have hi: "of_int ((2 * J + 1) * 2 ^ i) = (c + 1 / 2 ^ 54) * 2 ^ j"
    by (simp add: c_def pj field_simps)
  from assms(3) have b: "c - 1 / 2 ^ 54 \<le> s" "s \<le> c + 1 / 2 ^ 54"
    unfolding c_def by linarith+
  have "(c - 1 / 2 ^ 54) * 2 ^ j \<le> s * 2 ^ j"
    using b(1) by (intro mult_right_mono) simp_all
  then have "of_int ((2 * J - 1) * 2 ^ i) \<le> s * 2 ^ j" by (simp only: lo)
  then have "(2 * J - 1) * 2 ^ i \<le> rne (s * 2 ^ j)" by (rule rne_ge)
  then have "(of_int ((2 * J - 1) * 2 ^ i) :: real) \<le> of_int (rne (s * 2 ^ j))"
    by (simp only: of_int_le_iff)
  then have "(c - 1 / 2 ^ 54) * 2 ^ j \<le> of_int (rne (s * 2 ^ j))" by (simp only: lo)
  then have L: "c - 1 / 2 ^ 54 \<le> fl s"
    unfolding fls by (simp add: pos_le_divide_eq)
  have "s * 2 ^ j \<le> (c + 1 / 2 ^ 54) * 2 ^ j"
    using b(2) by (intro mult_right_mono) simp_all
  then have "s * 2 ^ j \<le> of_int ((2 * J + 1) * 2 ^ i)" by (simp only: hi)
  then have "rne (s * 2 ^ j) \<le> (2 * J + 1) * 2 ^ i" by (rule rne_le)
  then have "(of_int (rne (s * 2 ^ j)) :: real) \<le> of_int ((2 * J + 1) * 2 ^ i)"
    by (simp only: of_int_le_iff)
  then have "of_int (rne (s * 2 ^ j)) \<le> (c + 1 / 2 ^ 54) * 2 ^ j" by (simp only: hi)
  then have U: "fl s \<le> c + 1 / 2 ^ 54"
    unfolding fls by (simp add: pos_divide_le_eq)
  from L U show ?thesis unfolding c_def by linarith
qed

lemma fl_about_one:
  assumes "\<bar>d\<bar> \<le> 1 / 2 ^ 54"
  shows "fl (1 + d) = 1"
proof (cases "0 \<le> d")
  case True
  have d: "d \<le> 1 / 2 ^ 54" using assms by linarith
  have "d * 2 ^ 52 \<le> (1 / 2 ^ 54) * 2 ^ 52"
    using d by (intro mult_right_mono) simp_all
  then have d2: "d * 2 ^ 52 \<le> 1 / 4" by simp
  have d0: "0 \<le> d * 2 ^ 52" using True by simp
  have x: "(1 + d) * 2 ^ 52 = 2 ^ 52 + d * 2 ^ 52" by (simp add: algebra_simps)
  have r: "rne ((1 + d) * 2 ^ 52) = 2 ^ 52"
    by (rule rne_near_even) (use d0 d2 in \<open>simp_all add: x\<close>)
  have "fl (1 + d) = of_int (rne ((1 + d) * 2 ^ 52)) / 2 ^ 52"
    by (rule fl_eval) (use True d0 d2 in \<open>simp_all add: x\<close>)
  then have "fl (1 + d) = of_int (2 ^ 52) / 2 ^ 52" by (simp only: r)
  then show ?thesis by simp
next
  case False
  have d: "- (1 / 2 ^ 54) \<le> d" "d < 0" using assms False by linarith+
  have "(- (1 / 2 ^ 54)) * 2 ^ 53 \<le> d * 2 ^ 53"
    using d(1) by (intro mult_right_mono) simp_all
  then have d2: "- (1 / 2) \<le> d * 2 ^ 53" by simp
  have d0: "d * 2 ^ 53 < 0" using d(2) by (simp add: mult_less_0_iff)
  have x: "(1 + d) * 2 ^ 53 = 2 ^ 53 + d * 2 ^ 53" by (simp add: algebra_simps)
  have r: "rne ((1 + d) * 2 ^ 53) = 2 ^ 53"
    by (rule rne_near_even) (use d0 d2 in \<open>simp_all add: x\<close>)
  have pos: "0 \<le> 1 + d" using d(1) by simp
  have "fl (1 + d) = of_int (rne ((1 + d) * 2 ^ 53)) / 2 ^ 53"
    by (rule fl_eval) (use pos d0 d2 in \<open>simp_all add: x\<close>)
  then have "fl (1 + d) = of_int (2 ^ 53) / 2 ^ 53" by (simp only: r)
  then show ?thesis by simp
qed

lemma rne_numeral [simp]: "rne (numeral w) = numeral w"
  using rne_of_int [of "numeral w"] by simp

lemma fl_half: "fl (1/2) = 1/2"
  by (subst fl_eval [where k = 53]) simp_all

lemma fl_complement_low:
  assumes "0 \<le> t" and "t \<le> 1/2"
  shows "fl (fl t + fl (1 - t)) = 1"
proof -
  consider "t = 1/2" | "t = 0" | "0 < t" "t < 1/2" using assms by linarith
  then show ?thesis
  proof cases
    case 1
    show ?thesis unfolding 1 by (simp add: fl_half)
  next
    case 2
    then show ?thesis by simp
  next
    case 3
    define u where "u = 1 - t"
    have u: "1/2 < u" "u < 1" using 3 by (simp_all add: u_def)
    define K where "K = rne (u * 2 ^ 53)"
    have flu: "fl u = of_int K / 2 ^ 53"
      unfolding K_def by (rule fl_eval) (use u in simp_all)
    have "\<bar>of_int K - u * 2 ^ 53\<bar> \<le> 1/2"
      unfolding K_def by (rule rne_error)
    then have "\<bar>of_int K - u * 2 ^ 53\<bar> / 2 ^ 53 \<le> (1/2) / 2 ^ 53"
      by (intro divide_right_mono) simp_all
    moreover have "of_int K / 2 ^ 53 - u = (of_int K - u * 2 ^ 53) / 2 ^ 53"
      by (simp add: diff_divide_distrib)
    then have "\<bar>of_int K / 2 ^ 53 - u\<bar> = \<bar>of_int K - u * 2 ^ 53\<bar> / 2 ^ 53"
      by (simp only: abs_divide) simp
    ultimately have eu: "\<bar>of_int K / 2 ^ 53 - u\<bar> \<le> 1 / 2 ^ 54" by simp
    define J where "J = 2 ^ 53 - K"
    have c: "of_int J / 2 ^ 53 = 1 - of_int K / (2 ^ 53 :: real)"
      by (simp add: J_def field_simps)
    have "\<bar>t - of_int J / 2 ^ 53\<bar> \<le> 1 / 2 ^ 54"
      using eu unfolding c u_def by linarith
    from fl_grid_small [OF assms(1) 3(2) this]
    have "\<bar>fl t - of_int J / 2 ^ 53\<bar> \<le> 1 / 2 ^ 54" .
    then have "\<bar>fl t + fl u - 1\<bar> \<le> 1 / 2 ^ 54"
      unfolding c flu by linarith
    from fl_about_one [OF this] show ?thesis by (simp add: u_def)
  qed
qed

lemma fl_complement:
  assumes "0 \<le> t" and "t \<le> 1"
  shows "fl (fl t + fl (1 - t)) = 1"
proof (cases "t \<le> 1/2")
  case True
  with assms(1) show ?thesis by (rule fl_complement_low)
next
  case False
  then have "0 \<le> 1 - t" "1 - t \<le> 1/2" using assms(2) by simp_all
  from fl_complement_low [OF this] show ?thesis by (simp add: add.commute)
qed

lemma fl_nonpos:
  assumes "x \<le> 0"
  shows "fl x \<le> 0"
proof -
  have "- x / 2 ^ 53 \<le> - x"
    using assms by (simp add: field_simps)
  moreover have "\<bar>fl x - x\<bar> \<le> - x / 2 ^ 53"
    using fl_error [of x] assms by simp
  ultimately show ?thesis by linarith
qed

lemma fl_pos:
  assumes "0 < x"
  shows "0 < fl x"
proof -
  have "x / 2 ^ 53 < x"
    using assms by (simp add: field_simps)
  moreover have "\<bar>fl x - x\<bar> \<le> x / 2 ^ 53"
    using fl_error [of x] assms by simp
  ultimately show ?thesis by linarith
qed

lemma fl_within:
  assumes "0 \<le> x"
  shows "x - x / 1000 \<le> fl x" and "fl x \<le> x + x / 1000"
proof -
  have "\<bar>fl x - x\<bar> \<le> x / 2 ^ 53"
    using fl_error [of x] assms by simp
  moreover have "x / 2 ^ 53 \<le> x / 1000"
    using assms by (intro divide_left_mono) simp_all
  ultimately show "x - x / 1000 \<le> fl x" and "fl x \<le> x + x / 1000"
    by linarith+
qed

lemma fl_three_halves: "fl (3/2) = 3/2"
  by (subst fl_eval [where k = 52]) simp_all

subsection \<open>Raw ratings of a simulated pairing\<close>

text \<open>
  Claim C3. For every simulated pairing the recorded raw rating is
  \<open>floor((healthRating + damageRating) * 500)\<close>, where the health rating is the
  candidate's final health over its maximal health and the damage rating is the
  health the opponent lost over the opponent's maximal health; the opponent's
  raw rating is the same formula with the sides exchanged. The health values
  are read from the two objects as the resolver left them, and the operations
  are those of doubles.
\<close>

theorem simulated_raw_rating:
  "(case simulatePairing eng sc h p q of (h', m) \<Rightarrow>
      rating m = of_int \<lfloor>fmul (fadd (fdiv (hp (h' p)) (stats_hp (h' p)))
                        (fdiv (fsub (stats_hp (h' q)) (hp (h' q))) (stats_hp (h' q)))) 500\<rfloor>
    \<and> opRating m = of_int \<lfloor>fmul (fadd (fdiv (hp (h' q)) (stats_hp (h' q)))
                        (fdiv (fsub (stats_hp (h' p)) (hp (h' p))) (stats_hp (h' p)))) 500\<rfloor>)"
  by (simp add: simulatePairing_def pairingResult_def rawRating_def healthRating_def
      damageRating_def Let_def split: prod.splits)

lemma fl_near:
  assumes "\<bar>x\<bar> \<le> b"
  shows "\<bar>fl x - x\<bar> \<le> b / 2 ^ 53"
proof -
  have "\<bar>x\<bar> / 2 ^ 53 \<le> b / 2 ^ 53"
    using assms by (intro divide_right_mono) simp_all
  with fl_error [of x] show ?thesis by linarith
qed

text \<open>The double-precision product before the floor is within \<open>11000 / 2^53\<close> of
  the exact one.\<close>

lemma product_close:
  assumes "0 < stats_hp p" "0 \<le> hp p" "hp p \<le> stats_hp p"
    and "0 < stats_hp q" "0 \<le> hp q" "hp q \<le> stats_hp q"
  shows "\<bar>fmul (fadd (healthRating p) (damageRating q)) 500
          - (hp p / stats_hp p + (stats_hp q - hp q) / stats_hp q) * 500\<bar> \<le> 11000 / 2 ^ 53"
proof -
  define u :: real where "u = 1 / 2 ^ 53"
  have u: "0 < u" "u \<le> 1" by (simp_all add: u_def)
  define a where "a = hp p / stats_hp p"
  define t where "t = stats_hp q - hp q"
  define d where "d = t / stats_hp q"
  have a01: "0 \<le> a" "a \<le> 1" using assms(1-3) by (simp_all add: a_def)
  have t0: "0 \<le> t" "t \<le> stats_hp q" using assms(5,6) by (simp_all add: t_def)
  have d01: "0 \<le> d" "d \<le> 1" using assms(4) t0 by (simp_all add: d_def)
  \<comment> \<open>the health rating\<close>
  have ea: "\<bar>fl a - a\<bar> \<le> u"
    using fl_near [of a 1] a01 by (simp add: u_def)
  \<comment> \<open>the damage rating\<close>
  have "\<bar>fl t - t\<bar> \<le> t * u"
    using fl_error [of t] t0 by (simp add: u_def)
  then have "\<bar>fl t - t\<bar> / stats_hp q \<le> (t * u) / stats_hp q"
    using assms(4) by (intro divide_right_mono) simp_all
  moreover have "\<bar>fl t / stats_hp q - d\<bar> = \<bar>fl t - t\<bar> / stats_hp q"
    using assms(4) by (simp add: d_def diff_divide_distrib [symmetric])
  moreover have "(t * u) / stats_hp q = d * u" by (simp add: d_def)
  moreover have "d * u \<le> u" using d01 u by (simp add: mult_left_le_one_le)
  ultimately have ec: "\<bar>fl t / stats_hp q - d\<bar> \<le> u" by linarith
  then have cb: "\<bar>fl t / stats_hp q\<bar> \<le> 2" using d01 u by linarith
  have "\<bar>fl (fl t / stats_hp q) - fl t / stats_hp q\<bar> \<le> 2 * u"
    using fl_near [OF cb] by (simp add: u_def)
  with ec have ed: "\<bar>fl (fl t / stats_hp q) - d\<bar> \<le> 3 * u" by linarith
  \<comment> \<open>the sum\<close>
  define s where "s = fl a + fl (fl t / stats_hp q)"
  have es: "\<bar>s - (a + d)\<bar> \<le> 4 * u" using ea ed unfolding s_def by linarith
  then have sb: "\<bar>s\<bar> \<le> 6" using a01 d01 u by linarith
  have "\<bar>fl s - s\<bar> \<le> 6 * u" using fl_near [OF sb] by (simp add: u_def)
  with es have efs: "\<bar>fl s - (a + d)\<bar> \<le> 10 * u" by linarith
  then have fsb: "\<bar>fl s\<bar> \<le> 12" using a01 d01 u by linarith
  \<comment> \<open>the product\<close>
  have pb: "\<bar>fl s * 500\<bar> \<le> 6000" using fsb by (simp add: abs_mult)
  have "\<bar>fl (fl s * 500) - fl s * 500\<bar> \<le> 6000 * u"
    using fl_near [OF pb] by (simp add: u_def)
  moreover have "\<bar>fl s * 500 - (a + d) * 500\<bar> \<le> 5000 * u"
    using efs by (simp add: abs_le_iff)
  ultimately have "\<bar>fl (fl s * 500) - (a + d) * 500\<bar> \<le> 11000 * u" by linarith
  also have "11000 * u \<le> 11000 / 2 ^ 53" by (simp add: u_def)
  finally show ?thesis
    by (simp add: fmul_def fadd_def healthRating_def damageRating_def fdiv_def fsub_def
        s_def a_def d_def t_def)
qed

lemma floor_add_neg_cases:
  fixes x :: real
  shows "\<lfloor>x\<rfloor> + \<lfloor>- x\<rfloor> = 0 \<or> \<lfloor>x\<rfloor> + \<lfloor>- x\<rfloor> = - 1"
proof (cases "x \<in> \<int>")
  case True
  then obtain k :: int where "x = of_int k" by (auto elim: Ints_cases)
  then show ?thesis by simp
next
  case False
  then have "x \<noteq> of_int \<lfloor>x\<rfloor>"
    by (metis Ints_of_int)
  then have "\<lfloor>- x\<rfloor> = - \<lfloor>x\<rfloor> - 1"
    by (simp add: floor_minus ceiling_altdef)
  then show ?thesis by simp
qed

lemma exactRating_shift:
  assumes "0 < stats_hp p" "0 < stats_hp q"
  shows "exactRating p q = 500 + of_int \<lfloor>500 * (hp p / stats_hp p - hp q / stats_hp q)\<rfloor>"
proof -
  have "(hp p / stats_hp p + (stats_hp q - hp q) / stats_hp q) * 500
        = 500 * (hp p / stats_hp p - hp q / stats_hp q) + of_int 500"
    using assms by (simp add: field_simps)
  then have "\<lfloor>(hp p / stats_hp p + (stats_hp q - hp q) / stats_hp q) * 500\<rfloor>
        = \<lfloor>500 * (hp p / stats_hp p - hp q / stats_hp q)\<rfloor> + 500"
    by (simp only: floor_add_int)
  then show ?thesis by (simp add: exactRating_def)
qed

text \<open>With exact arithmetic the two raw ratings add up to 999 or 1000.\<close>

lemma exactRating_sum:
  assumes "0 < stats_hp p" "0 < stats_hp q"
  shows "exactRating p q + exactRating q p = 1000 \<or> exactRating p q + exactRating q p = 999"
proof -
  define x where "x = 500 * (hp p / stats_hp p - hp q / stats_hp q)"
  have neg: "500 * (hp q / stats_hp q - hp p / stats_hp p) = - x"
    by (simp add: x_def algebra_simps)
  have r1: "exactRating p q = 500 + of_int \<lfloor>x\<rfloor>"
    unfolding x_def by (rule exactRating_shift [OF assms])
  have r2: "exactRating q p = 500 + of_int \<lfloor>- x\<rfloor>"
    unfolding neg [symmetric] by (rule exactRating_shift [OF assms(2) assms(1)])
  have sum: "exactRating p q + exactRating q p = 1000 + of_int (\<lfloor>x\<rfloor> + \<lfloor>- x\<rfloor>)"
    by (simp add: r1 r2)
  from floor_add_neg_cases [of x] show ?thesis
  proof
    assume "\<lfloor>x\<rfloor> + \<lfloor>- x\<rfloor> = 0"
    with sum show ?thesis by simp
  next
    assume "\<lfloor>x\<rfloor> + \<lfloor>- x\<rfloor> = - 1"
    with sum show ?thesis by simp
  qed
qed

text \<open>In double precision each floor may come out one lower.\<close>

lemma rawRating_sum:
  assumes "0 < stats_hp p" "0 \<le> hp p" "hp p \<le> stats_hp p"
    and "0 < stats_hp q" "0 \<le> hp q" "hp q \<le> stats_hp q"
  shows "rawRating p q + rawRating q p = 998 \<or> rawRating p q + rawRating q p = 999
         \<or> rawRating p q + rawRating q p = 1000"
proof -
  define F where "F = fmul (fadd (healthRating p) (damageRating q)) 500"
  define G where "G = fmul (fadd (healthRating q) (damageRating p)) 500"
  define E where "E = (hp p / stats_hp p + (stats_hp q - hp q) / stats_hp q) * 500"
  define D where "D = (hp q / stats_hp q + (stats_hp p - hp p) / stats_hp p) * 500"
  have eps: "(11000::real) / 2 ^ 53 \<le> 1 / 4" by simp
  have cF: "\<bar>F - E\<bar> \<le> 1 / 4"
    using product_close [OF assms] eps unfolding F_def E_def by linarith
  have cG: "\<bar>G - D\<bar> \<le> 1 / 4"
    using product_close [OF assms(4-6) assms(1-3)] eps unfolding G_def D_def by linarith
  have ED: "E + D = 1000"
    using assms(1,4) by (simp add: E_def D_def field_simps)
  have fF: "of_int \<lfloor>F\<rfloor> \<le> F" "F < of_int \<lfloor>F\<rfloor> + 1" by linarith+
  have fG: "of_int \<lfloor>G\<rfloor> \<le> G" "G < of_int \<lfloor>G\<rfloor> + 1" by linarith+
  from cF have bF: "F \<le> E + 1 / 4" "E - 1 / 4 \<le> F" by linarith+
  from cG have bG: "G \<le> D + 1 / 4" "D - 1 / 4 \<le> G" by linarith+
  have "of_int \<lfloor>F\<rfloor> + of_int \<lfloor>G\<rfloor> < (1001 :: real)"
    using bF bG ED fF fG by linarith
  then have "(of_int (\<lfloor>F\<rfloor> + \<lfloor>G\<rfloor>) :: real) < of_int 1001" by simp
  then have up: "\<lfloor>F\<rfloor> + \<lfloor>G\<rfloor> < 1001" by (simp only: of_int_less_iff)
  have "(997 :: real) < of_int \<lfloor>F\<rfloor> + of_int \<lfloor>G\<rfloor>"
    using bF bG ED fF fG by linarith
  then have "(of_int 997 :: real) < of_int (\<lfloor>F\<rfloor> + \<lfloor>G\<rfloor>)" by simp
  then have lo: "997 < \<lfloor>F\<rfloor> + \<lfloor>G\<rfloor>" by (simp only: of_int_less_iff)
  from up lo have "\<lfloor>F\<rfloor> + \<lfloor>G\<rfloor> = 998 \<or> \<lfloor>F\<rfloor> + \<lfloor>G\<rfloor> = 999 \<or> \<lfloor>F\<rfloor> + \<lfloor>G\<rfloor> = 1000"
    by presburger
  moreover have "rawRating p q + rawRating q p = of_int (\<lfloor>F\<rfloor> + \<lfloor>G\<rfloor>)"
    by (simp add: rawRating_def F_def G_def)
  ultimately show ?thesis by auto
qed

text \<open>Health counted in whole points: equal health fractions give both sides the
  raw rating 500 exactly, and unequal ones keep the two raw ratings on
  different sides of 500.\<close>

lemma rawRating_level:
  assumes "hp p = of_int a" "stats_hp p = of_int m" "0 \<le> a" "a \<le> m" "0 < m"
    and "hp q = of_int b" "stats_hp q = of_int n" "0 \<le> b" "b \<le> n" "0 < n" "n \<le> 2 ^ 24"
    and "a * n = b * m"
  shows "rawRating p q = 500"
proof -
  define t :: real where "t = of_int a / of_int m"
  have t01: "0 \<le> t" "t \<le> 1" using assms(3-5) by (simp_all add: t_def)
  have "(of_int (a * n) :: real) = of_int (b * m)" using assms(12) by simp
  then have same: "of_int b / of_int n = t"
    using assms(5,10) by (simp add: t_def field_simps)
  have "\<bar>n - b\<bar> < 2 ^ 53" using assms(8,9,11) by simp
  then have "fl (of_int (n - b)) = of_int (n - b)" by (rule fl_of_int)
  then have sub: "fl (of_int n - of_int b) = of_int n - of_int b" by simp
  have "(of_int n - of_int b) / of_int n = 1 - of_int b / (of_int n :: real)"
    using assms(10) by (simp add: field_simps)
  then have dmg: "(of_int n - of_int b) / of_int n = 1 - t" by (simp only: same)
  have "fadd (healthRating p) (damageRating q) = fl (fl t + fl (1 - t))"
    by (simp add: fadd_def healthRating_def damageRating_def fdiv_def fsub_def assms(1,2,6,7)
        sub dmg t_def)
  also have "\<dots> = 1" using t01 by (rule fl_complement)
  finally show ?thesis by (simp add: rawRating_def fmul_def)
qed

lemma rawRating_apart:
  assumes "hp p = of_int a" "stats_hp p = of_int m" "0 \<le> a" "a \<le> m" "0 < m" "m \<le> 2 ^ 24"
    and "hp q = of_int b" "stats_hp q = of_int n" "0 \<le> b" "b \<le> n" "0 < n" "n \<le> 2 ^ 24"
    and "b * m < a * n"
  shows "rawRating q p < 500" and "500 \<le> rawRating p q"
proof -
  define F where "F = fmul (fadd (healthRating p) (damageRating q)) 500"
  define G where "G = fmul (fadd (healthRating q) (damageRating p)) 500"
  define E where "E = (hp p / stats_hp p + (stats_hp q - hp q) / stats_hp q) * 500"
  define D where "D = (hp q / stats_hp q + (stats_hp p - hp p) / stats_hp p) * 500"
  have hp: "0 < stats_hp p" "0 \<le> hp p" "hp p \<le> stats_hp p"
    using assms(3-5) by (simp_all add: assms(1,2))
  have hq: "0 < stats_hp q" "0 \<le> hp q" "hp q \<le> stats_hp q"
    using assms(9-11) by (simp_all add: assms(7,8))
  have cF: "\<bar>F - E\<bar> \<le> 11000 / 2 ^ 53"
    unfolding F_def E_def by (rule product_close [OF hp hq])
  have cG: "\<bar>G - D\<bar> \<le> 11000 / 2 ^ 53"
    unfolding G_def D_def by (rule product_close [OF hq hp])
  have "b * m + 1 \<le> a * n" using assms(13) by simp
  then have "(of_int (b * m + 1) :: real) \<le> of_int (a * n)" by (simp only: of_int_le_iff)
  then have gap: "of_int b * of_int m + 1 \<le> of_int a * (of_int n :: real)" by simp
  have "m * n \<le> 2 ^ 24 * 2 ^ 24"
    using assms(5,6,11,12) by (intro mult_mono) simp_all
  then have "(of_int (m * n) :: real) \<le> of_int (2 ^ 24 * 2 ^ 24)" by (simp only: of_int_le_iff)
  then have mn: "of_int m * of_int n \<le> (2 ^ 48 :: real)" by simp
  have mnpos: "0 < of_int m * (of_int n :: real)" using assms(5,11) by simp
  define x :: real where "x = of_int a / of_int m - of_int b / of_int n"
  have "x = (of_int a * of_int n - of_int b * of_int m) / (of_int m * of_int n)"
    using assms(5,11) by (simp add: x_def field_simps)
  moreover have "1 / (of_int m * of_int n) \<le> (of_int a * of_int n - of_int b * of_int m) / (of_int m * (of_int n :: real))"
    using gap mnpos by (intro divide_right_mono) simp_all
  moreover have "1 / 2 ^ 48 \<le> 1 / (of_int m * (of_int n :: real))"
    using mn mnpos by (intro divide_left_mono) simp_all
  ultimately have x: "1 / 2 ^ 48 \<le> x" by linarith
  have Ex: "E = 500 + 500 * x"
    using assms(5,11) by (simp add: E_def x_def assms(1,2,7,8) field_simps)
  have Dx: "D = 500 - 500 * x"
    using assms(5,11) by (simp add: D_def x_def assms(1,2,7,8) field_simps)
  have small: "(11000 :: real) / 2 ^ 53 < 500 * (1 / 2 ^ 48)" by simp
  have big: "500 * (1 / 2 ^ 48) \<le> 500 * x" using x by simp
  have "500 < F" using cF Ex small big by linarith
  then have "500 \<le> \<lfloor>F\<rfloor>" by (simp add: le_floor_iff)
  then show "500 \<le> rawRating p q" by (simp add: rawRating_def F_def)
  have "G < 500" using cG Dx small big by linarith
  then have "\<lfloor>G\<rfloor> < 500" by (simp add: floor_less_iff)
  then show "rawRating q p < 500" by (simp add: rawRating_def G_def)
qed

lemma rawRating_tie_level:
  assumes "hp p = of_int a" "stats_hp p = of_int m" "0 \<le> a" "a \<le> m" "0 < m" "m \<le> 2 ^ 24"
    and "hp q = of_int b" "stats_hp q = of_int n" "0 \<le> b" "b \<le> n" "0 < n" "n \<le> 2 ^ 24"
    and "rawRating p q = rawRating q p"
  shows "rawRating p q = 500"
proof -
  consider "a * n = b * m" | "b * m < a * n" | "a * n < b * m" by linarith
  then show ?thesis
  proof cases
    case 1
    from rawRating_level [OF assms(1-5) assms(7-12) 1] show ?thesis .
  next
    case 2
    from rawRating_apart [OF assms(1-12) 2] assms(13) show ?thesis by simp
  next
    case 3
    from rawRating_apart [OF assms(7-12) assms(1-6) 3] assms(13) show ?thesis by simp
  qed
qed

text \<open>The evaluation, operation by operation, of the two raw ratings for final
  health 6 of 100 against 13 of 100.\<close>

lemma lost_own_health: "healthRating (contestant ''azumarill'' 100 6 0 1 None) = 8646911284551352 / 2 ^ 57"
  unfolding healthRating_def fdiv_def contestant_def
  by simp (subst fl_eval [where k = 57], simp_all add: rne_def Let_def)

lemma lost_own_damage: "damageRating (contestant ''medicham'' 100 13 0 1 None) = 7836263351624663 / 2 ^ 53"
  unfolding damageRating_def fdiv_def fsub_def contestant_def
  by simp (subst fl_eval [where k = 53], simp_all add: rne_def Let_def)

lemma lost_own_sum:
  "fadd (healthRating (contestant ''azumarill'' 100 6 0 1 None)) (damageRating (contestant ''medicham'' 100 13 0 1 None)) = 8376695306909122 / 2 ^ 53"
  unfolding lost_own_health lost_own_damage fadd_def
  by (subst fl_eval [where k = 53]) (simp_all add: rne_def Let_def)

lemma lost_own_product:
  "fmul (fadd (healthRating (contestant ''azumarill'' 100 6 0 1 None)) (damageRating (contestant ''medicham'' 100 13 0 1 None))) 500 = 8180366510653439 / 2 ^ 44"
  unfolding lost_own_sum fmul_def
  by (subst fl_eval [where k = 44]) (simp_all add: rne_def Let_def)

lemma lost_own_rating: "rawRating (contestant ''azumarill'' 100 6 0 1 None) (contestant ''medicham'' 100 13 0 1 None) = 464"
  unfolding rawRating_def lost_own_product by simp

lemma lost_opp_health: "healthRating (contestant ''medicham'' 100 13 0 1 None) = 4683743612465316 / 2 ^ 55"
  unfolding healthRating_def fdiv_def contestant_def
  by simp (subst fl_eval [where k = 55], simp_all add: rne_def Let_def)

lemma lost_opp_damage: "damageRating (contestant ''azumarill'' 100 6 0 1 None) = 8466767299456532 / 2 ^ 53"
  unfolding damageRating_def fdiv_def fsub_def contestant_def
  by simp (subst fl_eval [where k = 53], simp_all add: rne_def Let_def)

lemma lost_opp_sum:
  "fadd (healthRating (contestant ''medicham'' 100 13 0 1 None)) (damageRating (contestant ''azumarill'' 100 6 0 1 None)) = 4818851601286430 / 2 ^ 52"
  unfolding lost_opp_health lost_opp_damage fadd_def
  by (subst fl_eval [where k = 52]) (simp_all add: rne_def Let_def)

lemma lost_opp_product:
  "fmul (fadd (healthRating (contestant ''medicham'' 100 13 0 1 None)) (damageRating (contestant ''azumarill'' 100 6 0 1 None))) 500 = 4705909766881279 / 2 ^ 43"
  unfolding lost_opp_sum fmul_def
  by (subst fl_eval [where k = 43]) (simp_all add: rne_def Let_def)

lemma lost_opp_rating: "rawRating (contestant ''medicham'' 100 13 0 1 None) (contestant ''azumarill'' 100 6 0 1 None) = 534"
  unfolding rawRating_def lost_opp_product by simp

text \<open>
  Claim C10, as stated, fails. With final health 6 of 100 against 13 of 100 the
  exact products are 465 and 535, but in double precision \<open>0.06 + 0.87\<close> and
  \<open>0.13 + 0.94\<close> both round to the double below the exact sum, the products
  stay below 465 and 535, and the raw ratings are 464 and 534: they add up to
  998.
\<close>

theorem raw_ratings_sum_counterexample:
  "rating (pairingResult (contestant ''azumarill'' 100 6 0 1 None)
                         (contestant ''medicham'' 100 13 0 1 None)) = 464
   \<and> opRating (pairingResult (contestant ''azumarill'' 100 6 0 1 None)
                              (contestant ''medicham'' 100 13 0 1 None)) = 534
   \<and> rating (pairingResult (contestant ''azumarill'' 100 6 0 1 None)
                            (contestant ''medicham'' 100 13 0 1 None))
     + opRating (pairingResult (contestant ''azumarill'' 100 6 0 1 None)
                               (contestant ''medicham'' 100 13 0 1 None)) = 998"
  by (simp add: pairingResult_def Let_def lost_own_rating lost_opp_rating split: prod.splits)

text \<open>
  Claim C10, amended. Health is counted in whole points. For every simulated
  pairing between contestants whose final health lies between 0 and their
  maximal health, which is positive and at most \<open>2^24\<close>: with exact arithmetic
  the two raw ratings add up to 999 or 1000 (the two pre-floor sums add up to
  2); as the code computes them, in double precision, they add up to 998, 999
  or 1000; and two equal raw ratings are both exactly 500.
\<close>

theorem raw_ratings_sum:
  assumes "hp p = of_int a" and "stats_hp p = of_int m"
    and "0 \<le> a" and "a \<le> m" and "0 < m" and "m \<le> 2 ^ 24"
    and "hp q = of_int b" and "stats_hp q = of_int n"
    and "0 \<le> b" and "b \<le> n" and "0 < n" and "n \<le> 2 ^ 24"
  shows "(exactRating p q + exactRating q p = 999 \<or> exactRating p q + exactRating q p = 1000)
    \<and> (rating (pairingResult p q) + opRating (pairingResult p q) = 998
       \<or> rating (pairingResult p q) + opRating (pairingResult p q) = 999
       \<or> rating (pairingResult p q) + opRating (pairingResult p q) = 1000)
    \<and> (rating (pairingResult p q) = opRating (pairingResult p q)
       \<longrightarrow> rating (pairingResult p q) = 500 \<and> opRating (pairingResult p q) = 500)"
proof -
  have r: "rating (pairingResult p q) = rawRating p q"
    and o: "opRating (pairingResult p q) = rawRating q p"
    by (simp_all add: pairingResult_def Let_def split: prod.splits)
  have hp: "0 < stats_hp p" "0 \<le> hp p" "hp p \<le> stats_hp p"
    using assms(3-5) by (simp_all add: assms(1,2))
  have hq: "0 < stats_hp q" "0 \<le> hp q" "hp q \<le> stats_hp q"
    using assms(9-11) by (simp_all add: assms(7,8))
  have tie: "rawRating p q = 500" if "rawRating p q = rawRating q p"
    using assms that by (rule rawRating_tie_level)
  from rawRating_sum [OF hp hq] exactRating_sum [OF hp(1) hq(1)] tie
  show ?thesis unfolding r o by auto
qed

lemma decisive_own:
  "rawRating (contestant ''azumarill'' 150 150 1 1 None) (contestant ''medicham'' 151 0 0 1 None)
   = 1000"
  by (simp add: rawRating_def healthRating_def damageRating_def fdiv_def fsub_def fadd_def
      fmul_def contestant_def)

lemma decisive_opp:
  "rawRating (contestant ''medicham'' 151 0 0 1 None) (contestant ''azumarill'' 150 150 1 1 None)
   = 0"
  by (simp add: rawRating_def healthRating_def damageRating_def fdiv_def fsub_def fadd_def
      fmul_def contestant_def)

lemma level_own:
  "rawRating (contestant ''azumarill'' 150 75 1 1 None) (contestant ''medicham'' 100 50 0 1 None)
   = 500"
  by (simp add: rawRating_def healthRating_def damageRating_def fdiv_def fsub_def fadd_def
      fmul_def contestant_def fl_half)

lemma level_opp:
  "rawRating (contestant ''medicham'' 100 50 0 1 None) (contestant ''azumarill'' 150 75 1 1 None)
   = 500"
  by (simp add: rawRating_def healthRating_def damageRating_def fdiv_def fsub_def fadd_def
      fmul_def contestant_def fl_half)

theorem raw_ratings_sum_witness:
  "hp (contestant ''azumarill'' 150 75 1 1 None) = of_int 75
   \<and> stats_hp (contestant ''azumarill'' 150 75 1 1 None) = of_int 150
   \<and> hp (contestant ''medicham'' 100 50 0 1 None) = of_int 50
   \<and> stats_hp (contestant ''medicham'' 100 50 0 1 None) = of_int 100
   \<and> (150 :: int) \<le> 2 ^ 24 \<and> (100 :: int) \<le> 2 ^ 24
   \<and> rating (pairingResult (contestant ''azumarill'' 150 75 1 1 None)
                            (contestant ''medicham'' 100 50 0 1 None))
       = opRating (pairingResult (contestant ''azumarill'' 150 75 1 1 None)
                                 (contestant ''medicham'' 100 50 0 1 None))
   \<and> rating (pairingResult (contestant ''azumarill'' 150 75 1 1 None)
                            (contestant ''medicham'' 100 50 0 1 None)) = 500"
  using raw_ratings_sum [of "contestant ''azumarill'' 150 75 1 1 None" 75 150
      "contestant ''medicham'' 100 50 0 1 None" 50 100]
  by (simp add: pairingResult_def Let_def level_own level_opp split: prod.splits)
    (simp add: contestant_def)

subsection \<open>Win multipliers\<close>

text \<open>The evaluation of the two raw ratings for final health 10 of 150 against
  10 of 151.\<close>

lemma edge_own_health: "healthRating (contestant ''azumarill'' 150 10 1 1 None) = 4803839602528529 / 2 ^ 56"
  unfolding healthRating_def fdiv_def contestant_def
  by simp (subst fl_eval [where k = 56], simp_all add: rne_def Let_def)

lemma edge_own_damage: "damageRating (contestant ''medicham'' 151 10 0 1 None) = 8410695992837615 / 2 ^ 53"
  unfolding damageRating_def fdiv_def fsub_def contestant_def
  by simp (subst fl_eval [where k = 53], simp_all add: rne_def Let_def)

lemma edge_own_sum:
  "fadd (healthRating (contestant ''azumarill'' 150 10 1 1 None)) (damageRating (contestant ''medicham'' 151 10 0 1 None)) = 4505587971576841 / 2 ^ 52"
  unfolding edge_own_health edge_own_damage fadd_def
  by (subst fl_eval [where k = 52]) (simp_all add: rne_def Let_def)

lemma edge_own_product:
  "fmul (fadd (healthRating (contestant ''azumarill'' 150 10 1 1 None)) (damageRating (contestant ''medicham'' 151 10 0 1 None))) 500 = 8799976506986018 / 2 ^ 44"
  unfolding edge_own_sum fmul_def
  by (subst fl_eval [where k = 44]) (simp_all add: rne_def Let_def)

lemma edge_own_rating: "rawRating (contestant ''azumarill'' 150 10 1 1 None) (contestant ''medicham'' 151 10 0 1 None) = 500"
  unfolding rawRating_def edge_own_product by simp

lemma edge_opp_health: "healthRating (contestant ''medicham'' 151 10 0 1 None) = 4772026095227016 / 2 ^ 56"
  unfolding healthRating_def fdiv_def contestant_def
  by simp (subst fl_eval [where k = 56], simp_all add: rne_def Let_def)

lemma edge_opp_damage: "damageRating (contestant ''azumarill'' 150 10 1 1 None) = 8406719304424926 / 2 ^ 53"
  unfolding damageRating_def fdiv_def fsub_def contestant_def
  by simp (subst fl_eval [where k = 53], simp_all add: rne_def Let_def)

lemma edge_opp_sum:
  "fadd (healthRating (contestant ''medicham'' 151 10 0 1 None)) (damageRating (contestant ''azumarill'' 150 10 1 1 None)) = 9003222566328303 / 2 ^ 53"
  unfolding edge_opp_health edge_opp_damage fadd_def
  by (subst fl_eval [where k = 53]) (simp_all add: rne_def Let_def)

lemma edge_opp_product:
  "fmul (fadd (healthRating (contestant ''medicham'' 151 10 0 1 None)) (damageRating (contestant ''azumarill'' 150 10 1 1 None))) 500 = 8792209537429983 / 2 ^ 44"
  unfolding edge_opp_sum fmul_def
  by (subst fl_eval [where k = 44]) (simp_all add: rne_def Let_def)

lemma edge_opp_rating: "rawRating (contestant ''medicham'' 151 10 0 1 None) (contestant ''azumarill'' 150 10 1 1 None) = 499"
  unfolding rawRating_def edge_opp_product by simp

text \<open>
  Claim C4, as stated, fails. With final health 10 of 150 against 10 of 151 the
  candidate's raw rating is 500 and the opponent's 499: the candidate has the
  strictly higher raw rating, yet the test \<^verbatim>\<open>rating === 500\<close> clears both
  multipliers, so the candidate's adjusted rating gets no shield term although
  it kept a shield and the opponent spent one.
\<close>

theorem win_multiplier_counterexample:
  "opRating (pairingResult (contestant ''azumarill'' 150 10 1 1 None)
                           (contestant ''medicham'' 151 10 0 1 None))
     < rating (pairingResult (contestant ''azumarill'' 150 10 1 1 None)
                             (contestant ''medicham'' 151 10 0 1 None))
   \<and> winMultipliers
       (rating (pairingResult (contestant ''azumarill'' 150 10 1 1 None)
                              (contestant ''medicham'' 151 10 0 1 None)))
       (opRating (pairingResult (contestant ''azumarill'' 150 10 1 1 None)
                                (contestant ''medicham'' 151 10 0 1 None))) = (0, 0)
   \<and> adjRating (pairingResult (contestant ''azumarill'' 150 10 1 1 None)
                              (contestant ''medicham'' 151 10 0 1 None)) = 500"
  by (simp add: pairingResult_def Let_def edge_own_rating edge_opp_rating winMultipliers_def)

text \<open>
  Claim C4, amended. For every simulated pairing both win multipliers are 0
  whenever the candidate's own raw rating is exactly 500, in particular when
  the two raw ratings are tied at 500. Otherwise the candidate's multiplier is
  1 and the opponent's 0 when the candidate's raw rating is strictly higher,
  and the candidate's is 0 and the opponent's 1 when it is not. The
  multipliers gate the shield terms added to each side's raw rating.
\<close>

theorem win_multipliers_gate:
  "(case winMultipliers (rating (pairingResult p q)) (opRating (pairingResult p q)) of
      (w, ow) \<Rightarrow>
        (rating (pairingResult p q) = 500 \<longrightarrow> w = 0 \<and> ow = 0)
      \<and> (rating (pairingResult p q) \<noteq> 500
           \<and> opRating (pairingResult p q) < rating (pairingResult p q)
           \<longrightarrow> w = 1 \<and> ow = 0)
      \<and> (rating (pairingResult p q) \<noteq> 500
           \<and> rating (pairingResult p q) \<le> opRating (pairingResult p q)
           \<longrightarrow> w = 0 \<and> ow = 1)
      \<and> adjRating (pairingResult p q) = rating (pairingResult p q)
           + 100 * (startingShields q - shields q) * w + 100 * shields p * w
      \<and> adjOpRating (pairingResult p q) = opRating (pairingResult p q)
           + 100 * (startingShields p - shields p) * ow + 100 * shields q * ow)"
proof -
  have r: "rating (pairingResult p q) = rawRating p q"
    and o: "opRating (pairingResult p q) = rawRating q p"
    by (simp_all add: pairingResult_def Let_def split: prod.splits)
  have adj: "adjRating (pairingResult p q) = rawRating p q
      + 100 * (startingShields q - shields q) * fst (winMultipliers (rawRating p q) (rawRating q p))
      + 100 * shields p * fst (winMultipliers (rawRating p q) (rawRating q p))"
    by (simp add: pairingResult_def Let_def split: prod.splits)
  have adjo: "adjOpRating (pairingResult p q) = rawRating q p
      + 100 * (startingShields p - shields p) * snd (winMultipliers (rawRating p q) (rawRating q p))
      + 100 * shields q * snd (winMultipliers (rawRating p q) (rawRating q p))"
    by (simp add: pairingResult_def Let_def split: prod.splits)
  show ?thesis
    unfolding r o using adj adjo
    by (auto simp: winMultipliers_def Let_def split: prod.splits if_splits)
qed

theorem win_multipliers_gate_witness:
  "rating (pairingResult (contestant ''azumarill'' 150 150 1 1 None)
                         (contestant ''medicham'' 151 0 0 1 None)) = 1000
   \<and> opRating (pairingResult (contestant ''azumarill'' 150 150 1 1 None)
                              (contestant ''medicham'' 151 0 0 1 None)) = 0
   \<and> winMultipliers 1000 0 = (1, 0)
   \<and> adjRating (pairingResult (contestant ''azumarill'' 150 150 1 1 None)
                               (contestant ''medicham'' 151 0 0 1 None)) = 1200
   \<and> adjOpRating (pairingResult (contestant ''azumarill'' 150 150 1 1 None)
                                 (contestant ''medicham'' 151 0 0 1 None)) = 0"
  using win_multipliers_gate [of "contestant ''azumarill'' 150 150 1 1 None"
      "contestant ''medicham'' 151 0 0 1 None"]
  by (simp add: pairingResult_def Let_def decisive_own decisive_opp winMultipliers_def)
    (simp add: contestant_def)

subsection \<open>Eligibility: the identity rule\<close>

text \<open>The ends of a dex range may be given as strings, which the comparison
  converts to numbers; a missing end or a string that is no number fails the
  rule.\<close>

lemmas conversion = stringToNumber_def trimSpace_def isWhiteSpace_def nonDecimal_def
  unsignedDecimal_def mantissaValue_def exponentValue_def digitsValue_def digitValue_def
  isExponentMark_def negate_def toDouble_def toNumber_def valueAt_def geNumber_def
  leNumber_def Let_def

lemma dex_rule_converts:
  "inDexRange (dexRule [Str ''1'', Str ''151''])
     ((contestant ''pikachu'' 100 100 0 0 None)\<lparr>dex := 25\<rparr>)"
  "\<not> inDexRange (dexRule [Str ''1'', Str ''151''])
     ((contestant ''chikorita'' 100 100 0 0 None)\<lparr>dex := 152\<rparr>)"
  "\<not> inDexRange (dexRule [Num 1]) ((contestant ''pikachu'' 100 100 0 0 None)\<lparr>dex := 25\<rparr>)"
  "\<not> inDexRange (dexRule [Num 1, Str ''151st''])
     ((contestant ''pikachu'' 100 100 0 0 None)\<lparr>dex := 25\<rparr>)"
  by (simp_all add: inDexRange_def dexRule_def contestant_def conversion)

lemma filterStep_mono:
  assumes "filterStep pokemon cp isInclude len f (m, r, b) = (m', r', b')"
  shows "m \<le> m' \<and> r' \<le> r \<and> (b \<longrightarrow> b')"
  using assms
  by (auto simp: filterStep_def Let_def split: if_splits option.splits)

lemma fold_filterStep_mono:
  assumes "fold (filterStep pokemon cp isInclude len) fs (m, r, b) = (m', r', b')"
  shows "m \<le> m' \<and> r' \<le> r \<and> (b \<longrightarrow> b')"
  using assms
proof (induction fs arbitrary: m r b)
  case Nil
  then show ?case by simp
next
  case (Cons f fs)
  obtain m1 r1 b1 where step: "filterStep pokemon cp isInclude len f (m, r, b) = (m1, r1, b1)"
    by (cases "filterStep pokemon cp isInclude len f (m, r, b)") auto
  with Cons.prems have "fold (filterStep pokemon cp isInclude len) fs (m1, r1, b1) = (m', r', b')"
    by simp
  from Cons.IH [OF this] filterStep_mono [OF step] show ?case by auto
qed

lemma filterStep_id_hit:
  assumes "filterType f = ''id''"
    and "case leagues f of None \<Rightarrow> True | Some ls \<Rightarrow> cp \<in> set ls"
    and "idMatches f pokemon True"
    and "filterStep pokemon cp True len f (m, r, b) = (m', r', b')"
  shows "m + int len \<le> m' \<and> r' \<le> r \<and> b'"
  using assms
  by (auto simp: filterStep_def Let_def split: if_splits option.splits)

lemma fold_filterStep_id_hit:
  assumes "f \<in> set fs" and "filterType f = ''id''"
    and "case leagues f of None \<Rightarrow> True | Some ls \<Rightarrow> cp \<in> set ls"
    and "idMatches f pokemon True"
    and "fold (filterStep pokemon cp True len) fs (m, r, b) = (m', r', b')"
  shows "m + int len \<le> m' \<and> r' \<le> r \<and> b'"
  using assms(1,5)
proof (induction fs arbitrary: m r b)
  case Nil
  then show ?case by simp
next
  case (Cons g fs)
  obtain m1 r1 b1 where step: "filterStep pokemon cp True len g (m, r, b) = (m1, r1, b1)"
    by (cases "filterStep pokemon cp True len g (m, r, b)") auto
  with Cons.prems have rest: "fold (filterStep pokemon cp True len) fs (m1, r1, b1) = (m', r', b')"
    by simp
  show ?case
  proof (cases "g = f")
    case True
    with step have "m + int len \<le> m1 \<and> r1 \<le> r \<and> b1"
      using filterStep_id_hit [OF assms(2-4)] by blast
    with fold_filterStep_mono [OF rest] show ?thesis by auto
  next
    case False
    with Cons.prems have "f \<in> set fs" by simp
    from Cons.IH [OF this rest] filterStep_mono [OF step] show ?thesis by auto
  qed
qed

lemma runFilters_exclude_flag:
  assumes "runFilters pokemon cp False exclude b = (m, r, b')"
  shows "b \<longrightarrow> b'"
  using fold_filterStep_mono [OF assms [unfolded runFilters_def]] by simp

text \<open>
  Claim C9. When some \<^verbatim>\<open>id\<close> rule of the include list that applies to the
  league matches the contestant, the include list is satisfied at once
  (\<open>filtersMatched\<close> reaches at least \<open>filters.length\<close>, whatever the other rules
  say) and the identity flag is set; with the flag set no match of the exclude
  list removes the contestant, so \<^verbatim>\<open>checkFilters\<close> returns true. This holds for
  include lists of every length, in particular for those with more than one rule.
\<close>

theorem id_rule_short_circuit:
  assumes "f \<in> set include" and "filterType f = ''id''"
    and "case leagues f of None \<Rightarrow> True | Some ls \<Rightarrow> cp \<in> set ls"
    and "idMatches f pokemon True"
  shows "(case runFilters pokemon cp True include False of
            (filtersMatched, requiredFilters, includeIdFilter) \<Rightarrow>
              filtersMatched \<ge> int (length include) \<and> filtersMatched \<ge> requiredFilters
              \<and> includeIdFilter)
         \<and> checkFilters pokemon include exclude cp"
proof -
  obtain m r b where inc: "runFilters pokemon cp True include False = (m, r, b)"
    by (cases "runFilters pokemon cp True include False") auto
  from fold_filterStep_id_hit [OF assms inc [unfolded runFilters_def]]
  have hit: "int (length include) \<le> m" "r \<le> int (length include)" "b" by auto
  obtain m2 r2 b2 where exc: "runFilters pokemon cp False exclude b = (m2, r2, b2)"
    by (cases "runFilters pokemon cp False exclude b") auto
  from runFilters_exclude_flag [OF exc] hit(3) have "b2" by simp
  with hit inc exc show ?thesis
    by (simp add: checkFilters_def Let_def)
qed

theorem id_rule_short_circuit_witness:
  "idRule [''seaking''] \<in> set [typeRule [''bug'', ''dark''], idRule [''seaking'']]
   \<and> filterType (idRule [''seaking'']) = ''id''
   \<and> leagues (idRule [''seaking'']) = None
   \<and> idMatches (idRule [''seaking''])
        ((contestant ''seaking'' 150 150 0 0 None)\<lparr>types := [''water'', ''none'']\<rparr>) True
   \<and> runFilters ((contestant ''seaking'' 150 150 0 0 None)\<lparr>types := [''water'', ''none'']\<rparr>)
        1500 True [typeRule [''bug'', ''dark''], idRule [''seaking'']] False = (2, 1, True)
   \<and> fst (runFilters ((contestant ''seaking'' 150 150 0 0 None)\<lparr>types := [''water'', ''none'']\<rparr>)
        1500 False [typeRule [''water'']] True) = 1
   \<and> checkFilters ((contestant ''seaking'' 150 150 0 0 None)\<lparr>types := [''water'', ''none'']\<rparr>)
        [typeRule [''bug'', ''dark''], idRule [''seaking'']] [typeRule [''water'']] 1500"
  using id_rule_short_circuit [of "idRule [''seaking'']"
      "[typeRule [''bug'', ''dark''], idRule [''seaking'']]" 1500
      "(contestant ''seaking'' 150 150 0 0 None)\<lparr>types := [''water'', ''none'']\<rparr>"
      "[typeRule [''water'']]"]
  by (simp add: contestant_def idRule_def typeRule_def idMatches_def runFilters_def
      filterStep_def includesType_def Let_def)

subsection \<open>Scaling of the final scores\<close>







subsection \<open>The overall score\<close>
















text \<open>The example, operation by operation. The second candidate's scores 0.2
  and 57.8 have the product 11.56 and the geometric mean 3.4; the quotient
  \<open>3.4 / 80 * 1000\<close> is the double below 42.5, which rounds to 42, and the final
  score is 4.2. With exact arithmetic it would be 4.3.\<close>

lemma tenth: "fl (1/10) = 7205759403792794 / 2 ^ 56"
  by (subst fl_eval [where k = 56]) (simp_all add: rne_def Let_def)















subsection \<open>The solver: number of passes\<close>

lemma weightLoop_length:
  assumes "weightLoop step j ms score weights = Inr (ms', score', weights')"
  shows "length ms' = length ms"
  using assms
proof (induction ms arbitrary: j score weights ms' score' weights')
  case Nil
  then show ?case by simp
next
  case (Cons m ms)
  then show ?case
    by (auto split: sum.splits prod.splits)
qed

lemma weightCandidate_shape:
  assumes "weightCandidate pw pokemonList targets cp cupName sc n best rankings i = Inr r"
  shows "length (rank_scores r) = Suc (length (rank_scores (rankings ! i)))
    \<and> length (rank_matches r) = length (rank_matches (rankings ! i))
    \<and> rank_speciesId r = rank_speciesId (rankings ! i)
    \<and> take (length (rank_scores (rankings ! i))) (rank_scores r) = rank_scores (rankings ! i)"
  using assms
  by (auto simp: weightCandidate_def dest: weightLoop_length split: sum.splits prod.splits)

lemma candidateStep_Inl [simp]:
  "candidateStep pw pokemonList targets cp cupName sc n best i (Inl e) = Inl e"
  by (simp add: candidateStep_def)

lemma passStep_Inl [simp]:
  "passStep pw pokemonList targets cp cupName sc n (Inl e) = Inl e"
  by (simp add: passStep_def)

lemma fold_candidateStep_Inl [simp]:
  "fold (candidateStep pw pokemonList targets cp cupName sc n best) is (Inl e) = Inl e"
  by (induction "is") simp_all

lemma fold_passStep_Inl [simp]:
  "fold (passStep pw pokemonList targets cp cupName sc) ns (Inl e) = Inl e"
  by (induction ns) simp_all

lemma candidates_fold_shape:
  assumes "fold (candidateStep pw pokemonList targets cp cupName sc n best) [0..<k] (Inr rankings) = Inr out"
    and "k \<le> length rankings"
  shows "length out = length rankings
    \<and> (\<forall>i < length rankings.
          length (rank_scores (out ! i))
            = (if i < k then Suc (length (rank_scores (rankings ! i)))
               else length (rank_scores (rankings ! i))))"
  using assms
proof (induction k arbitrary: out)
  case 0
  then show ?case by simp
next
  case (Suc k)
  let ?f = "candidateStep pw pokemonList targets cp cupName sc n best"
  from Suc.prems(1) have step: "?f k (fold ?f [0..<k] (Inr rankings)) = Inr out"
    by simp
  then obtain mid where mid: "fold ?f [0..<k] (Inr rankings) = Inr mid"
    by (cases "fold ?f [0..<k] (Inr rankings)") simp_all
  from Suc.IH [OF mid] Suc.prems(2)
  have len: "length mid = length rankings"
    and sc: "\<forall>i < length rankings. length (rank_scores (mid ! i))
            = (if i < k then Suc (length (rank_scores (rankings ! i)))
               else length (rank_scores (rankings ! i)))"
    by simp_all
  from step mid obtain r
    where r: "weightCandidate pw pokemonList targets cp cupName sc n best mid k = Inr r"
      and out: "out = mid[k := r]"
    by (auto simp: candidateStep_def split: sum.splits)
  from weightCandidate_shape [OF r] sc Suc.prems(2)
  have "length (rank_scores r) = Suc (length (rank_scores (rankings ! k)))" by simp
  with len sc out Suc.prems(2) show ?case
    by (auto simp: nth_list_update less_Suc_eq)
qed

lemma weightPass_shape:
  assumes "weightPass pw pokemonList targets cp cupName sc n rankings = Inr out"
  shows "length out = length rankings
    \<and> (\<forall>i < length rankings.
          length (rank_scores (out ! i)) = Suc (length (rank_scores (rankings ! i))))"
  using candidates_fold_shape [OF assms [unfolded weightPass_def] order_refl] by simp

lemma passes_fold_shape:
  assumes "fold (passStep pw pokemonList targets cp cupName sc) [0..<k] (Inr rankings) = Inr out"
  shows "length out = length rankings
    \<and> (\<forall>i < length rankings.
          length (rank_scores (out ! i)) = length (rank_scores (rankings ! i)) + k)"
  using assms
proof (induction k arbitrary: out)
  case 0
  then show ?case by simp
next
  case (Suc k)
  let ?f = "passStep pw pokemonList targets cp cupName sc"
  from Suc.prems have step: "?f k (fold ?f [0..<k] (Inr rankings)) = Inr out"
    by simp
  then obtain mid where mid: "fold ?f [0..<k] (Inr rankings) = Inr mid"
    by (cases "fold ?f [0..<k] (Inr rankings)") simp_all
  with step have "weightPass pw pokemonList targets cp cupName sc k mid = Inr out"
    by (simp add: passStep_def)
  from weightPass_shape [OF this] Suc.IH [OF mid] show ?case by simp
qed

lemma shape500: "shapeRating pw 500 = 500" by (simp add: shapeRating_def)

text \<open>
  Claim C8, as stated, fails. A user defines a cup under a name of their own,
  \<^verbatim>\<open>mycup\<close>, as the manual describes, and registers it with
  \<^verbatim>\<open>registerCustomCup\<close>: the game master then knows the cup by that name and lists
  it as custom, but the solver, which asks for the name \<^verbatim>\<open>custom\<close>, makes one
  pass over this freshly defined roster and not seven.
\<close>

theorem solver_pass_count_counterexample:
  "isCustomCup (registerCustomCup officialMaster myCup) ''mycup''
   \<and> getCupById (registerCustomCup officialMaster myCup) ''mycup'' = Some myCup
   \<and> iterations (cup_name myCup) = 1
   \<and> weightMatchups (powr) [contestant ''azumarill'' 150 150 1 1 None]
        [contestant ''azumarill'' 150 150 1 1 None] 1500
        [ranked ''azumarill'' [recorded ''azumarill'' 500 500 500 500] [0]]
        leadsScenario (cup_name myCup)
     = Inr [ranked ''azumarill'' [weighted ''azumarill'' 500 500 500 500 0 500] [0, 0]]"
  by (simp add: isCustomCup_def registerCustomCup_def getCupById_def officialMaster_def
      myCup_def weightMatchups_def iterations_def passStep_def weightPass_def
      candidateStep_def weightCandidate_def weightPairing_def baseWeight_def switchWeight_def
      bestScore_def scoreAt_def scoreRatio_def belowCutoff_def mathPow_def
      contestant_def ranked_def recorded_def weighted_def shape500 jsMul_def jsAdd_def
      fmul_def fadd_def fdiv_def avgScore_def or_one_def leadsScenario_def Let_def)

text \<open>
  Claim C8, amended. For a cup that the game master finds under the name asked
  for, whether or not it is listed as custom, a run of the solver that
  completes pushes exactly 7 scores onto every candidate, one per pass, when
  that name is \<^verbatim>\<open>custom\<close>, and exactly 1 for every other name.
\<close>

theorem solver_pass_count:
  assumes "getCupById gm cupId = Some cupData"
    and "weightMatchups pw pokemonList targets cp rankings sc (cup_name cupData) = Inr out"
  shows "length out = length rankings
    \<and> (\<forall>i < length rankings.
          length (rank_scores (out ! i))
            = length (rank_scores (rankings ! i)) + (if cupId = ''custom'' then 7 else 1))"
proof -
  from assms(1) have "cup_name cupData = cupId"
    by (auto simp: getCupById_def find_Some_iff)
  with passes_fold_shape [OF assms(2) [unfolded weightMatchups_def]] show ?thesis
    by (simp add: iterations_def)
qed

lemma upt7: "[0..<7] = [0,1,2,3,4,5,6]" by (simp add: upt_rec)

theorem solver_pass_count_witness:
  "getCupById (registerCustomCup officialMaster adHocCup) ''custom'' = Some adHocCup
   \<and> weightMatchups (powr) [contestant ''azumarill'' 150 150 1 1 None]
        [contestant ''azumarill'' 150 150 1 1 None] 2500
        [ranked ''azumarill'' [recorded ''azumarill'' 500 500 500 500] [0]]
        leadsScenario (cup_name adHocCup)
     = Inr [ranked ''azumarill'' [weighted ''azumarill'' 500 500 500 500 0 500]
              [0, 0, 0, 0, 0, 0, 0, 0]]
   \<and> length (rank_scores (ranked ''azumarill'' [weighted ''azumarill'' 500 500 500 500 0 500]
              [0, 0, 0, 0, 0, 0, 0, 0])) = 1 + 7"
  using solver_pass_count [of "registerCustomCup officialMaster adHocCup" "''custom''" adHocCup
      "(powr)" "[contestant ''azumarill'' 150 150 1 1 None]"
      "[contestant ''azumarill'' 150 150 1 1 None]" 2500
      "[ranked ''azumarill'' [recorded ''azumarill'' 500 500 500 500] [0]]"
      leadsScenario
      "[ranked ''azumarill'' [weighted ''azumarill'' 500 500 500 500 0 500] [0, 0, 0, 0, 0, 0, 0, 0]]"]
  by (simp add: registerCustomCup_def getCupById_def officialMaster_def adHocCup_def
      weightMatchups_def iterations_def upt7 passStep_def weightPass_def
      candidateStep_def weightCandidate_def weightPairing_def baseWeight_def switchWeight_def
      bestScore_def scoreAt_def scoreRatio_def belowCutoff_def mathPow_def
      contestant_def ranked_def recorded_def weighted_def shape500 jsMul_def jsAdd_def
      fmul_def fadd_def fdiv_def avgScore_def or_one_def leadsScenario_def Let_def)

subsection \<open>The solver: the score of a pass\<close>

lemma exponent_nonzero: "fl (165/100) \<noteq> 0"
  using fl_pos [of "165/100"] by simp

lemma fmul_zero [simp]: "fmul 0 y = 0" "fmul x 0 = 0"
  by (simp_all add: fmul_def)

lemma baseWeight_finite:
  "baseWeight pw pokemonList targets cp cupName n (Finite x) i j
   = Some (realBase pw pokemonList targets cp cupName n x i j)"
  by (auto simp: baseWeight_def realBase_def rankWeight_def jsMul_def Let_def
      split: option.splits)

lemma baseWeight_self:
  assumes "speciesId (targets ! j) = speciesId (pokemonList ! i)"
  shows "baseWeight pw pokemonList targets cp cupName n q i j = Some 0"
  using assms by (simp add: baseWeight_def jsMul_def Let_def split: option.splits)

lemma switchWeight_finite:
  "switchWeight pw sc adj (Some b)
   = Some (if slug sc = ''switches'' \<and> adj < 500 then fmul b (switchPenalty pw adj) else b)"
  by (simp add: switchWeight_def jsMul_def)

lemma weightPairing_finite:
  assumes "j < length rankings" "j < length targets" "i < length pokemonList"
    and "scoreAt (rankings ! j) n = Some s" and "best \<noteq> 0"
  shows "weightPairing pw pokemonList targets cp cupName sc n (Some best) rankings i j m
    = Inr (m\<lparr>adjRating := shapeRating pw (adjRating m),
             match_score := Some (fmul (shapeRating pw (adjRating m))
                (realWeight pw pokemonList targets cp cupName sc n (fdiv s best)
                   (shapeRating pw (adjRating m)) i j)),
             match_opScore := Some (fmul (adjOpRating m)
                (mathPow pw 4 (realWeight pw pokemonList targets cp cupName sc n (fdiv s best)
                   (shapeRating pw (adjRating m)) i j)))\<rparr>,
           Some (fmul (shapeRating pw (adjRating m))
                (realWeight pw pokemonList targets cp cupName sc n (fdiv s best)
                   (shapeRating pw (adjRating m)) i j)),
           Some (if fdiv s best < cutoff n then 0
                 else realWeight pw pokemonList targets cp cupName sc n (fdiv s best)
                   (shapeRating pw (adjRating m)) i j))"
proof -
  have q: "scoreRatio (scoreAt (rankings ! j) n) (Some best) = Finite (fdiv s best)"
    using assms(4,5) by (simp add: scoreRatio_def)
  show ?thesis
    using assms(1-3)
    by (simp add: weightPairing_def q baseWeight_finite switchWeight_finite realWeight_def
        belowCutoff_def jsMul_def Let_def)
qed

lemma weightPairing_self:
  assumes "j < length rankings" "j < length targets" "i < length pokemonList"
    and "speciesId (targets ! j) = speciesId (pokemonList ! i)"
  shows "\<exists>m'. weightPairing pw pokemonList targets cp cupName sc n best rankings i j m
               = Inr (m', Some 0, Some 0)"
  using assms
  by (simp add: weightPairing_def baseWeight_self switchWeight_finite jsMul_def Let_def)

lemma realBase_self:
  assumes "speciesId (targets ! j) = speciesId (pokemonList ! i)"
  shows "realBase pw pokemonList targets cp cupName n x i j = 0"
  using assms by (simp add: realBase_def split: option.splits)

lemma realBase_below:
  assumes "length pokemonList = length targets" and "x < cutoff n"
  shows "realBase pw pokemonList targets cp cupName n x i j = 0"
proof -
  have "fsub x (cutoff n) \<le> 0"
    unfolding fsub_def using assms(2) by (intro fl_nonpos) simp
  then have "max (fsub x (cutoff n)) 0 = 0" by simp
  then have "mathPow pw (max (fsub x (cutoff n)) 0) (fl (165/100)) = 0"
    using exponent_nonzero by (simp add: mathPow_def)
  then show ?thesis
    using assms(1) by (simp add: realBase_def split: option.splits)
qed

lemma realBase_counted:
  assumes "speciesId (targets ! j) \<noteq> speciesId (pokemonList ! i)"
  shows "realBase pw pokemonList targets cp cupName n x i j
    = (let w = (if length pokemonList = length targets
                then mathPow pw (max 0 (fsub x (cutoff n))) (fl (165/100)) else 1)
       in case weightModifier (targets ! j) of
            Some wm \<Rightarrow> fmul w wm
          | None \<Rightarrow> if cupName = ''all'' \<and> cp = 1500 then 0 else w)"
  using assms by (auto simp: realBase_def max.commute Let_def split: option.splits)

lemma amendedWeight_code:
  assumes "length pokemonList = length targets
           \<or> \<not> fdiv (targetScore rankings j n) best < cutoff n"
  shows "(if fdiv (targetScore rankings j n) best < cutoff n then 0
          else realWeight pw pokemonList targets cp cupName sc n
                 (fdiv (targetScore rankings j n) best)
                 (shapeRating pw (adjRating (rank_matches (rankings ! i) ! j))) i j)
         = amendedWeight pw pokemonList targets cp cupName sc n best rankings i j"
    and "realWeight pw pokemonList targets cp cupName sc n
                 (fdiv (targetScore rankings j n) best)
                 (shapeRating pw (adjRating (rank_matches (rankings ! i) ! j))) i j
         = amendedWeight pw pokemonList targets cp cupName sc n best rankings i j"
proof -
  let ?x = "fdiv (targetScore rankings j n) best"
  let ?adj = "shapeRating pw (adjRating (rank_matches (rankings ! i) ! j))"
  let ?rw = "realWeight pw pokemonList targets cp cupName sc n ?x ?adj i j"
  let ?aw = "amendedWeight pw pokemonList targets cp cupName sc n best rankings i j"
  have main: "?rw = ?aw"
  proof (cases "speciesId (targets ! j) = speciesId (pokemonList ! i)")
    case True
    then show ?thesis
      by (simp add: realWeight_def realBase_self amendedWeight_def claimedWeight_def Let_def)
  next
    case False
    show ?thesis
    proof (cases "?x < cutoff n")
      case True
      with assms have "length pokemonList = length targets" by blast
      from realBase_below [OF this True] True show ?thesis
        by (simp add: realWeight_def amendedWeight_def claimedWeight_def Let_def)
    next
      case below: False
      show ?thesis
        using False below
        by (auto simp: realWeight_def realBase_counted [OF False] amendedWeight_def
            claimedWeight_def Let_def split: option.splits)
    qed
  qed
  show "?rw = ?aw" by (rule main)
  show "(if ?x < cutoff n then 0 else ?rw) = ?aw"
  proof (cases "?x < cutoff n")
    case True
    then show ?thesis by (simp add: amendedWeight_def claimedWeight_def Let_def)
  next
    case False
    then show ?thesis using main by simp
  qed
qed

lemma weightLoop_sums:
  assumes "\<And>k m. (k, m) \<in> set (enumerate j0 ms)
            \<Longrightarrow> step k m = Inr (f k m, Some (a k m), Some (c k m))"
  shows "weightLoop step j0 ms (Some s) (Some w)
    = Inr (map (\<lambda>(k, m). f k m) (enumerate j0 ms),
           Some (foldl fadd s (map (\<lambda>(k, m). a k m) (enumerate j0 ms))),
           Some (foldl fadd w (map (\<lambda>(k, m). c k m) (enumerate j0 ms))))"
  using assms
proof (induction ms arbitrary: j0 s w)
  case Nil
  then show ?case by simp
next
  case (Cons m ms)
  have hd: "step j0 m = Inr (f j0 m, Some (a j0 m), Some (c j0 m))"
    using Cons.prems by simp
  have tl: "weightLoop step (Suc j0) ms (Some (fadd s (a j0 m))) (Some (fadd w (c j0 m)))
    = Inr (map (\<lambda>(k, m). f k m) (enumerate (Suc j0) ms),
           Some (foldl fadd (fadd s (a j0 m)) (map (\<lambda>(k, m). a k m) (enumerate (Suc j0) ms))),
           Some (foldl fadd (fadd w (c j0 m)) (map (\<lambda>(k, m). c k m) (enumerate (Suc j0) ms))))"
    by (rule Cons.IH) (simp add: Cons.prems)
  show ?case
    by (simp add: hd tl jsAdd_def)
qed

lemma map_enumerate_nth:
  "map (\<lambda>(k, m). g k m) (enumerate 0 ms) = map (\<lambda>k. g k (ms ! k)) [0..<length ms]"
  by (rule nth_equalityI) (simp_all add: nth_enumerate_eq)

lemma weightCandidate_finite:
  assumes "i < length rankings" and "length rankings \<le> length pokemonList"
    and "length (rank_matches (rankings ! i)) \<le> length targets"
    and "length (rank_matches (rankings ! i)) \<le> length rankings"
    and "\<forall>j < length rankings. scoreAt (rankings ! j) n \<noteq> None"
    and "best \<noteq> 0"
  shows "\<exists>r. weightCandidate pw pokemonList targets cp cupName sc n (Some best) rankings i = Inr r
    \<and> rank_scores r = rank_scores (rankings ! i) @
        [avgScore
          (Some (foldl fadd 0 (map (\<lambda>j. fmul (shapeRating pw (adjRating (rank_matches (rankings ! i) ! j)))
                 (realWeight pw pokemonList targets cp cupName sc n
                    (fdiv (targetScore rankings j n) best)
                    (shapeRating pw (adjRating (rank_matches (rankings ! i) ! j))) i j))
               [0..<length (rank_matches (rankings ! i))])))
          (Some (foldl fadd 0 (map (\<lambda>j. if fdiv (targetScore rankings j n) best < cutoff n then 0
                 else realWeight pw pokemonList targets cp cupName sc n
                    (fdiv (targetScore rankings j n) best)
                    (shapeRating pw (adjRating (rank_matches (rankings ! i) ! j))) i j)
               [0..<length (rank_matches (rankings ! i))])))]"
proof -
  let ?ms = "rank_matches (rankings ! i)"
  let ?step = "weightPairing pw pokemonList targets cp cupName sc n (Some best) rankings i"
  let ?w = "\<lambda>k m. realWeight pw pokemonList targets cp cupName sc n
                    (fdiv (targetScore rankings k n) best) (shapeRating pw (adjRating m)) i k"
  let ?f = "\<lambda>k m. m\<lparr>adjRating := shapeRating pw (adjRating m),
             match_score := Some (fmul (shapeRating pw (adjRating m)) (?w k m)),
             match_opScore := Some (fmul (adjOpRating m) (mathPow pw 4 (?w k m)))\<rparr>"
  let ?a = "\<lambda>k m. fmul (shapeRating pw (adjRating m)) (?w k m)"
  let ?c = "\<lambda>k m. if fdiv (targetScore rankings k n) best < cutoff n then 0 else ?w k m"
  have step: "?step k m = Inr (?f k m, Some (?a k m), Some (?c k m))"
    if "(k, m) \<in> set (enumerate 0 ?ms)" for k m
  proof -
    from that have k: "k < length ?ms" by (auto simp: in_set_enumerate_eq)
    with assms have kr: "k < length rankings" "k < length targets" "i < length pokemonList"
      by simp_all
    with assms(5) obtain s where s: "scoreAt (rankings ! k) n = Some s" by auto
    then have ts: "targetScore rankings k n = s" by (simp add: targetScore_def)
    show ?thesis
      unfolding ts by (rule weightPairing_finite [OF kr s assms(6)])
  qed
  have loop: "weightLoop ?step 0 ?ms (Some 0) (Some 0)
    = Inr (map (\<lambda>(k, m). ?f k m) (enumerate 0 ?ms),
           Some (foldl fadd 0 (map (\<lambda>(k, m). ?a k m) (enumerate 0 ?ms))),
           Some (foldl fadd 0 (map (\<lambda>(k, m). ?c k m) (enumerate 0 ?ms))))"
    by (rule weightLoop_sums) (rule step)
  show ?thesis
    unfolding weightCandidate_def loop
    by (simp add: map_enumerate_nth)
qed

lemma weightCandidate_cong:
  assumes "length cur = length rankings" and "cur ! i = rankings ! i"
    and "\<forall>j < length rankings. scoreAt (cur ! j) n = scoreAt (rankings ! j) n"
  shows "weightCandidate pw pokemonList targets cp cupName sc n best cur i
    = weightCandidate pw pokemonList targets cp cupName sc n best rankings i"
proof -
  have eq: "weightPairing pw pokemonList targets cp cupName sc n best cur i
      = weightPairing pw pokemonList targets cp cupName sc n best rankings i"
    using assms(1,3) by (intro ext) (simp add: weightPairing_def)
  show ?thesis unfolding weightCandidate_def assms(2) eq by (rule refl)
qed

lemma weightCandidate_scoreAt:
  assumes "weightCandidate pw pokemonList targets cp cupName sc n best rankings i = Inr r"
    and "n < length (rank_scores (rankings ! i))"
  shows "scoreAt r n = scoreAt (rankings ! i) n"
  using assms
  by (auto simp: weightCandidate_def scoreAt_def nth_append split: sum.splits prod.splits)

lemma candidates_fold_inplace:
  assumes "\<forall>i < k. \<exists>r. weightCandidate pw pokemonList targets cp cupName sc n best rankings i = Inr r"
    and "k \<le> length rankings"
    and "\<forall>j < length rankings. n < length (rank_scores (rankings ! j))"
  shows "fold (candidateStep pw pokemonList targets cp cupName sc n best) [0..<k] (Inr rankings)
    = Inr (map (\<lambda>i. projr (weightCandidate pw pokemonList targets cp cupName sc n best rankings i))
             [0..<k] @ drop k rankings)"
  using assms(1,2)
proof (induction k)
  case 0
  then show ?case by simp
next
  case (Suc k)
  let ?g = "\<lambda>i. projr (weightCandidate pw pokemonList targets cp cupName sc n best rankings i)"
  let ?cur = "map ?g [0..<k] @ drop k rankings"
  from Suc.prems have k: "k < length rankings" by simp
  have IH: "fold (candidateStep pw pokemonList targets cp cupName sc n best) [0..<k] (Inr rankings)
      = Inr ?cur"
    using Suc by simp
  have len: "length ?cur = length rankings" using k by simp
  have atk: "?cur ! k = rankings ! k" using k by (simp add: nth_append)
  have sc: "\<forall>j < length rankings. scoreAt (?cur ! j) n = scoreAt (rankings ! j) n"
  proof (intro allI impI)
    fix j assume j: "j < length rankings"
    show "scoreAt (?cur ! j) n = scoreAt (rankings ! j) n"
    proof (cases "j < k")
      case True
      with Suc.prems obtain r
        where r: "weightCandidate pw pokemonList targets cp cupName sc n best rankings j = Inr r"
        by (metis less_Suc_eq)
      from weightCandidate_scoreAt [OF r] assms(3) j
      have "scoreAt r n = scoreAt (rankings ! j) n" by simp
      with True r show ?thesis by (simp add: nth_append)
    next
      case False
      with j k show ?thesis by (simp add: nth_append)
    qed
  qed
  from Suc.prems obtain r
    where r: "weightCandidate pw pokemonList targets cp cupName sc n best rankings k = Inr r"
    by blast
  have same: "weightCandidate pw pokemonList targets cp cupName sc n best ?cur k = Inr r"
    using weightCandidate_cong [OF len atk sc] r by simp
  have upd: "?cur[k := r] = map ?g [0..<Suc k] @ drop (Suc k) rankings"
    using k r by (simp add: list_update_append Cons_nth_drop_Suc [symmetric])
  have "fold (candidateStep pw pokemonList targets cp cupName sc n best) [0..<Suc k] (Inr rankings)
      = candidateStep pw pokemonList targets cp cupName sc n best k (Inr ?cur)"
    by (simp add: IH)
  also have "\<dots> = Inr (?cur[k := r])"
    by (simp add: candidateStep_def same)
  finally show ?case by (simp only: upd)
qed

lemma fold_jsMax_None: "fold (\<lambda>y acc. jsMax acc y) xs None = None"
  by (induction xs) (simp_all add: jsMax_def)

lemma fold_jsMax_Some:
  "fold (\<lambda>y acc. jsMax acc y) xs x = Some b \<Longrightarrow> x \<noteq> None \<and> (\<forall>y \<in> set xs. y \<noteq> None)"
proof (induction xs arbitrary: x)
  case Nil
  then show ?case by simp
next
  case (Cons y ys)
  then show ?case
    by (cases x; cases y) (auto simp: jsMax_def fold_jsMax_None)
qed

lemma bestScore_Some:
  assumes "bestScore rankings n = Some b"
  shows "\<forall>r \<in> set rankings. scoreAt r n \<noteq> None"
proof (cases rankings)
  case Nil
  then show ?thesis by simp
next
  case (Cons r rs)
  with assms have "fold (\<lambda>y acc. jsMax acc y) (map (\<lambda>r. scoreAt r n) rs) (scoreAt r n) = Some b"
    by (simp add: bestScore_def)
  from fold_jsMax_Some [OF this] Cons show ?thesis by auto
qed

lemma upt2: "[0..<2] = [0, 1]" by (simp add: upt_rec)
lemma upt3: "[0..<3] = [0, 1, 2]" by (simp add: upt_rec)

lemma shape_mid: "300 \<le> a \<Longrightarrow> a \<le> 700 \<Longrightarrow> shapeRating pw a = a"
  by (simp add: shapeRating_def)

lemma cutoff_zero: "cutoff 0 = fl (fl (1/10))"
  by (simp add: cutoff_def fadd_def)

lemma cutoff_zero_bounds: "1/11 < cutoff 0" "cutoff 0 < 1/9"
proof -
  define t :: real where "t = fl (1/10)"
  have t: "1/10 - (1/10) / 1000 \<le> t" "t \<le> 1/10 + (1/10) / 1000"
    unfolding t_def by (rule fl_within, simp)+
  then have t0: "0 \<le> t" by linarith
  have lo: "t - t / 1000 \<le> fl t" and hi: "fl t \<le> t + t / 1000"
    by (rule fl_within [OF t0])+
  from t lo hi have "1/11 < fl t" "fl t < 1/9" by linarith+
  then show "1/11 < cutoff 0" "cutoff 0 < 1/9"
    by (simp_all only: cutoff_zero t_def)
qed

lemma above_cutoff:
  assumes "1/5 \<le> x"
  shows "\<not> fl x < cutoff 0"
proof -
  have x0: "0 \<le> x" using assms by linarith
  have "x - x / 1000 \<le> fl x" by (rule fl_within [OF x0])
  with assms cutoff_zero_bounds(2) show ?thesis by linarith
qed

lemma under_cutoff:
  assumes "0 \<le> x" and "x \<le> 1/12"
  shows "fl x < cutoff 0"
proof -
  have "fl x \<le> x + x / 1000" by (rule fl_within [OF assms(1)])
  with assms cutoff_zero_bounds(1) show ?thesis by linarith
qed

lemma one_above_cutoff: "\<not> 1 < cutoff 0"
  using cutoff_zero_bounds(2) by linarith

text \<open>At pass 4 the cutoff \<^verbatim>\<open>0.1 + 0.06 * 4\<close> is the double below 0.34: a target
  whose score is 34 hundredths of the best one is not below it, and the base of
  its weight is positive.\<close>

lemma six_hundredths: "fl (6/100) = 8646911284551352 / 2 ^ 57"
  by simp (subst fl_eval [where k = 57], simp_all add: rne_def Let_def)

lemma cutoff_four: "cutoff 4 = 6124895493223874 / 2 ^ 54"
proof -
  have p: "fl (8646911284551352 / 2 ^ 57 * 4) = 8646911284551352 / 2 ^ 55"
    by (subst fl_eval [where k = 55]) (simp_all add: rne_def Let_def)
  have s: "fl (7205759403792794 / 2 ^ 56 + 8646911284551352 / 2 ^ 55) = 6124895493223874 / 2 ^ 54"
    by (subst fl_eval [where k = 54]) (simp_all add: rne_def Let_def)
  show ?thesis
    unfolding cutoff_def fadd_def fmul_def tenth six_hundredths
    by (simp only: of_nat_numeral p s)
qed

lemma ratio_34: "fdiv 34 100 = 6124895493223875 / 2 ^ 54"
  unfolding fdiv_def
  by simp (subst fl_eval [where k = 54], simp_all add: rne_def Let_def)

lemma above_cutoff_four:
  "\<not> fdiv 34 100 < cutoff 4" "fsub (fdiv 34 100) (cutoff 4) = 1 / 2 ^ 54"
proof -
  show "\<not> fdiv 34 100 < cutoff 4" unfolding ratio_34 cutoff_four by simp
  have "fl (1 / 2 ^ 54) = of_int (rne (1 / 2 ^ 54 * 2 ^ 106)) / 2 ^ 106"
    by (rule fl_eval) simp_all
  then have "fl (1 / 2 ^ 54) = 1 / 2 ^ 54" by simp
  moreover have "6124895493223875 / 2 ^ 54 - 6124895493223874 / 2 ^ 54 = (1 / 2 ^ 54 :: real)"
    by simp
  ultimately show "fsub (fdiv 34 100) (cutoff 4) = 1 / 2 ^ 54"
    unfolding ratio_34 cutoff_four fsub_def by simp
qed

lemmas solver_eval =
  weightPass_def bestScore_def scoreAt_def jsMax_def upt3 upt2 candidateStep_def
  weightCandidate_def weightPairing_def baseWeight_def switchWeight_def switchPenalty_def
  scoreRatio_def belowCutoff_def jsMul_def jsAdd_def avgScore_def or_one_def shape_mid
  mathPow_def fadd_def fsub_def fmul_def fdiv_def fl_half fl_three_halves
  above_cutoff under_cutoff one_above_cutoff
  poolOfThree_def targetsOfTwo_def ranked_def recorded_def contestant_def
  claimedScore_def weightedAverage_def claimedWeight_def targetScore_def Let_def

text \<open>
  Claim C1, as stated, fails. Take three candidates of which only the first two
  are targets, so that the pools differ in size and every weight starts at 1.
  The second target's score, 50, is below a tenth of the best score, 950. For
  the third candidate the pairing with that target still adds
  \<open>520 * 2\<close> to the numerator, although its weight is cleared before it is added
  to the denominator: the pass score is \<open>floor((400 * 2 + 520 * 2) / 2) = 920\<close>,
  where the claim, leaving the pairing out of both sums, gives 400.

  The claim also leaves a factor out. In the \<^verbatim>\<open>switches\<close> scenario, with no
  score below the cutoff, the third candidate's lost pairing (400) weighs
  \<open>2 * (1 + 100\<^sup>2 / 20000) = 3\<close> and its won pairing (600) weighs 2: the pass
  score is \<open>floor((400 * 3 + 600 * 2) / 5) = 480\<close>, where the claim gives
  \<open>(400 * 2 + 600 * 2) / 4 = 500\<close>. All the numbers of the two examples are
  doubles, and so are the results of the operations on them.
\<close>

theorem pass_score_counterexample:
  "rank_scores (projr (weightPass (powr) poolOfThree targetsOfTwo 1500 ''mycup'' closersScenario 0
        lopsided) ! 2) = [Some 920, Some 920]
   \<and> claimedScore (powr) poolOfThree targetsOfTwo 0 950 lopsided 2 = 400
   \<and> rank_scores (projr (weightPass (powr) poolOfThree targetsOfTwo 1500 ''mycup'' switchesScenario 0
        switching) ! 2) = [Some 1000, Some 480]
   \<and> claimedScore (powr) poolOfThree targetsOfTwo 0 1000 switching 2 = 500"
  by (simp add: solver_eval lopsided_def switching_def closersScenario_def switchesScenario_def)

text \<open>
  Claim C1, amended. Let the best score of pass \<open>n\<close> be a non-zero number and
  let the pools have the same size, or else let no score of pass \<open>n\<close> be below
  the cutoff fraction \<open>0.1 + 0.06 * n\<close> of the best score. Then the pass
  completes and the score it pushes for every candidate is
  \<open>floor(\<Sum>(rating * weight) / \<Sum>(weight))\<close> over the candidate's pairings, the
  denominator being 1 if the weights add up to 0, where \<open>rating\<close> is the adjusted
  rating after the soft cap and the curve, and \<open>weight\<close> is the weight of the
  specification (\<open>claimedWeight\<close>: 0 for a self-match and for a target below
  the cutoff) times the penalty of the \<^verbatim>\<open>switches\<close> scenario, and 0 for a target
  without weight modifier in the cup \<^verbatim>\<open>all\<close> at 1500. Every operation is
  that of doubles, the sums being taken in the order of the pairings.
\<close>

theorem pass_score_formula:
  assumes "length rankings \<le> length pokemonList"
    and "\<forall>r \<in> set rankings. length (rank_matches r) \<le> length targets
                              \<and> length (rank_matches r) \<le> length rankings"
    and "bestScore rankings n = Some best" and "best \<noteq> 0"
    and "length pokemonList = length targets
         \<or> (\<forall>j < length rankings. \<not> fdiv (targetScore rankings j n) best < cutoff n)"
  shows "\<exists>out. weightPass pw pokemonList targets cp cupName sc n rankings = Inr out
    \<and> length out = length rankings
    \<and> (\<forall>i < length rankings.
          rank_scores (out ! i) = rank_scores (rankings ! i)
            @ [Some (amendedScore pw pokemonList targets cp cupName sc n best rankings i)])"
proof -
  let ?wc = "\<lambda>i. weightCandidate pw pokemonList targets cp cupName sc n (Some best) rankings i"
  have defined: "\<forall>j < length rankings. scoreAt (rankings ! j) n \<noteq> None"
    using bestScore_Some [OF assms(3)] by simp
  then have inrange: "\<forall>j < length rankings. n < length (rank_scores (rankings ! j))"
    by (auto simp: scoreAt_def split: if_splits)
  have cand: "\<exists>r. ?wc i = Inr r
      \<and> rank_scores r = rank_scores (rankings ! i)
           @ [Some (amendedScore pw pokemonList targets cp cupName sc n best rankings i)]"
    if i: "i < length rankings" for i
  proof -
    let ?ms = "rank_matches (rankings ! i)"
    let ?adj = "\<lambda>j. shapeRating pw (adjRating (?ms ! j))"
    let ?rw = "\<lambda>j. realWeight pw pokemonList targets cp cupName sc n
                    (fdiv (targetScore rankings j n) best) (?adj j) i j"
    from i assms(2) have len: "length ?ms \<le> length targets" "length ?ms \<le> length rankings"
      by simp_all
    from weightCandidate_finite [OF i assms(1) len defined assms(4)]
    obtain r where r: "?wc i = Inr r"
      and sc: "rank_scores r = rank_scores (rankings ! i) @
        [avgScore
          (Some (foldl fadd 0 (map (\<lambda>j. fmul (?adj j) (?rw j)) [0..<length ?ms])))
          (Some (foldl fadd 0 (map (\<lambda>j. if fdiv (targetScore rankings j n) best < cutoff n
                                          then 0 else ?rw j) [0..<length ?ms])))]"
      by blast
    have side: "length pokemonList = length targets
        \<or> \<not> fdiv (targetScore rankings j n) best < cutoff n" if "j < length ?ms" for j
      using assms(5) that len(2) by auto
    have num: "map (\<lambda>j. fmul (?adj j) (?rw j)) [0..<length ?ms]
        = map (\<lambda>j. fmul (?adj j)
                 (amendedWeight pw pokemonList targets cp cupName sc n best rankings i j))
               [0..<length ?ms]"
      by (rule map_cong [OF refl]) (simp add: amendedWeight_code(2) [OF side])
    have den: "map (\<lambda>j. if fdiv (targetScore rankings j n) best < cutoff n then 0 else ?rw j)
               [0..<length ?ms]
        = map (amendedWeight pw pokemonList targets cp cupName sc n best rankings i)
               [0..<length ?ms]"
      by (rule map_cong [OF refl]) (simp add: amendedWeight_code(1) [OF side])
    have "rank_scores r = rank_scores (rankings ! i)
           @ [Some (amendedScore pw pokemonList targets cp cupName sc n best rankings i)]"
      unfolding sc num den
      by (simp add: avgScore_def amendedScore_def weightedAverage_def or_one_def Let_def)
    with r show ?thesis by blast
  qed
  then have all: "\<forall>i < length rankings. \<exists>r. ?wc i = Inr r" by blast
  from candidates_fold_inplace [OF all order_refl inrange]
  have pass: "weightPass pw pokemonList targets cp cupName sc n rankings
      = Inr (map (\<lambda>i. projr (?wc i)) [0..<length rankings])"
    by (simp add: weightPass_def assms(3))
  have "rank_scores (map (\<lambda>i. projr (?wc i)) [0..<length rankings] ! i)
      = rank_scores (rankings ! i)
          @ [Some (amendedScore pw pokemonList targets cp cupName sc n best rankings i)]"
    if "i < length rankings" for i
    using cand [OF that] that by auto
  with pass show ?thesis by simp
qed

text \<open>An example on which the rounding shows. The third candidate draws both
  pairings (500), against targets with the weight modifiers 1.1 and 2.2. The
  weighted ratings are 550 and 1100, but the weights add up to the double above
  3.3, and \<open>1650 / 3.3000000000000003\<close> is the double below 500: the pass score is
  499.\<close>

lemma modifier_110: "modifier 110 = 4953959590107546 / 2 ^ 52"
  unfolding modifier_def fdiv_def
  by simp (subst fl_eval [where k = 52], simp_all add: rne_def Let_def)

lemma modifier_220: "modifier 220 = 4953959590107546 / 2 ^ 51"
  unfolding modifier_def fdiv_def
  by simp (subst fl_eval [where k = 51], simp_all add: rne_def Let_def)

lemma modifier_fixed: "fl (modifier 110) = modifier 110" "fl (modifier 220) = modifier 220"
  unfolding modifier_110 modifier_220
  by (subst fl_eval [where k = 52], simp_all add: rne_def Let_def)
     (subst fl_eval [where k = 51], simp_all add: rne_def Let_def)

lemma modifier_products: "fl (500 * modifier 110) = 550" "fl (500 * modifier 220) = 1100"
  unfolding modifier_110 modifier_220
  by (subst fl_eval [where k = 43], simp_all add: rne_def Let_def)
     (subst fl_eval [where k = 42], simp_all add: rne_def Let_def)

lemma modifier_sum: "fl (modifier 110 + modifier 220) = 7430939385161319 / 2 ^ 51"
  unfolding modifier_110 modifier_220
  by (subst fl_eval [where k = 51]) (simp_all add: rne_def Let_def)

lemma modifier_sum_nonzero: "fl (modifier 110 + modifier 220) \<noteq> 0"
  unfolding modifier_sum by simp

lemma modifier_quotient: "fl (1650 / fl (modifier 110 + modifier 220)) = 8796093022207999 / 2 ^ 44"
  unfolding modifier_sum
  by (subst fl_eval [where k = 44]) (simp_all add: rne_def Let_def)

lemma modifier_floor: "\<lfloor>fl (1650 / fl (modifier 110 + modifier 220))\<rfloor> = 499"
  unfolding modifier_quotient by simp

theorem pass_score_formula_witness:
  "length level \<le> length poolOfModifiers
   \<and> bestScore level 0 = Some 1000
   \<and> length poolOfModifiers \<noteq> length targetsOfModifiers
   \<and> \<not> fdiv (targetScore level 1 0) 1000 < cutoff 0
   \<and> amendedScore (powr) poolOfModifiers targetsOfModifiers 1500 ''mycup'' closersScenario 0 1000
         level 2 = 499
   \<and> rank_scores (projr (weightPass (powr) poolOfModifiers targetsOfModifiers 1500 ''mycup''
         closersScenario 0 level) ! 2) = [Some 1000, Some 499]"
  using pass_score_formula [of level poolOfModifiers targetsOfModifiers 0 1000 "(powr)" 1500
      "''mycup''" closersScenario]
  by (simp add: solver_eval level_def poolOfModifiers_def targetsOfModifiers_def
      closersScenario_def amendedScore_def amendedWeight_def
      modifier_fixed modifier_products modifier_floor modifier_sum_nonzero)

subsection \<open>Self-pairings\<close>

lemma duel_self:
  "runBattle duelEngine leadsScenario twoObjects 0 0 0 = contestant ''azumarill'' 150 0 1 1 None"
  by (simp add: runBattle_def duelEngine_def twoObjects_def contestant_def
      setEnergyAdvantage_def leadsScenario_def Let_def)

lemma tie_result:
  "pairingResult (contestant ''azumarill'' 150 0 1 1 None) (contestant ''azumarill'' 150 0 1 1 None)
   = \<lparr>opponent = ''azumarill'', rating = 500, adjRating = 500, opRating = 500, adjOpRating = 500,
      match_score = None, match_opScore = None\<rparr>"
  by (simp add: pairingResult_def rawRating_def healthRating_def damageRating_def
      fdiv_def fsub_def fadd_def fmul_def winMultipliers_def contestant_def Let_def)

lemma self_pairing_value:
  "snd (rankPairing duelEngine leadsScenario [0, 1] [0, 1] [] 0 0 (twoObjects, [], 0, 0))
       = ([recorded ''azumarill'' 500 500 500 500], 0, 1)"
  by (simp add: rankPairing_def canReuse_def simulatePairing_def duel_self tie_result
      recorded_def Let_def)

lemma self_weight_value:
  "weightPairing (powr) [contestant ''azumarill'' 150 150 1 1 None]
        [contestant ''azumarill'' 150 150 1 1 None] 2500 ''custom'' leadsScenario 3 (Some 0)
        [ranked ''azumarill'' [recorded ''azumarill'' 500 500 500 500] [0]] 0 0
        (recorded ''azumarill'' 500 500 500 500)
       = Inr (weighted ''azumarill'' 500 500 500 500 0 500, Some 0, Some 0)"
  by (simp add: contestant_def leadsScenario_def weightPairing_def baseWeight_def
      switchWeight_def jsMul_def fmul_def mathPow_def shape500 ranked_def recorded_def
      weighted_def Let_def)

text \<open>
  Claim C5. A pairing whose two sides have the same identity is handled by the
  battle loop like any other pairing: its match is pushed, reused from the
  mirrored pairing when the reuse test passes and simulated (counting one
  battle) otherwise; but the running sum \<open>avg\<close> of the initial average is left
  as it was. In every solver pass, whatever the scores, such a pairing adds
  exactly 0 to the sum of the weighted ratings and exactly 0 to the sum of the
  weights.
\<close>

theorem self_pairing_excluded:
  "(speciesId (h (targets ! n)) = speciesId (h (pokemonList ! i)) \<longrightarrow>
      snd (rankPairing eng sc pokemonList targets rankings i n (h, matches, avg, battles))
      = (if canReuse sc pokemonList targets rankings i n
         then (matches @ [mirroredMatch (speciesId (h (targets ! n)))
                            (rank_matches (rankings ! n) ! i)], avg, battles)
         else (matches @ [snd (simulatePairing eng sc h (pokemonList ! i) (targets ! n))],
               avg, battles + 1)))
   \<and> (j < length solverRankings \<and> j < length solverTargets \<and> i < length solverPool
      \<and> speciesId (solverTargets ! j) = speciesId (solverPool ! i) \<longrightarrow>
      (\<exists>m'. weightPairing pw solverPool solverTargets cp cupName sc' pass best solverRankings
               i j m
             = Inr (m', Some 0, Some 0)))"
proof (intro conjI impI)
  assume "speciesId (h (targets ! n)) = speciesId (h (pokemonList ! i))"
  then show "snd (rankPairing eng sc pokemonList targets rankings i n (h, matches, avg, battles))
      = (if canReuse sc pokemonList targets rankings i n
         then (matches @ [mirroredMatch (speciesId (h (targets ! n)))
                            (rank_matches (rankings ! n) ! i)], avg, battles)
         else (matches @ [snd (simulatePairing eng sc h (pokemonList ! i) (targets ! n))],
               avg, battles + 1))"
    by (simp add: rankPairing_def Let_def split: prod.splits)
next
  assume "j < length solverRankings \<and> j < length solverTargets \<and> i < length solverPool
      \<and> speciesId (solverTargets ! j) = speciesId (solverPool ! i)"
  then show "\<exists>m'. weightPairing pw solverPool solverTargets cp cupName sc' pass best
               solverRankings i j m
             = Inr (m', Some 0, Some 0)"
    using weightPairing_self by blast
qed

theorem self_pairing_excluded_witness:
  "speciesId (twoObjects ([0, 1] ! 0)) = speciesId (twoObjects ([0, 1] ! 0))
   \<and> \<not> canReuse leadsScenario [0, 1] [0, 1] [] 0 0
   \<and> snd (rankPairing duelEngine leadsScenario [0, 1] [0, 1] [] 0 0 (twoObjects, [], 0, 0))
       = ([recorded ''azumarill'' 500 500 500 500], 0, 1)
   \<and> speciesId ([contestant ''azumarill'' 150 150 1 1 None] ! 0)
       = speciesId ([contestant ''azumarill'' 150 150 1 1 None] ! 0)
   \<and> weightPairing (powr) [contestant ''azumarill'' 150 150 1 1 None]
        [contestant ''azumarill'' 150 150 1 1 None] 2500 ''custom'' leadsScenario 3 (Some 0)
        [ranked ''azumarill'' [recorded ''azumarill'' 500 500 500 500] [0]] 0 0
        (recorded ''azumarill'' 500 500 500 500)
       = Inr (weighted ''azumarill'' 500 500 500 500 0 500, Some 0, Some 0)"
proof -
  note inst = self_pairing_excluded [where h = twoObjects and targets = "[0, 1]"
      and pokemonList = "[0, 1]" and n = 0 and i = 0 and eng = duelEngine
      and sc = leadsScenario and rankings = "[]" and matches = "[]" and avg = 0
      and battles = 0 and j = 0
      and solverRankings = "[ranked ''azumarill'' [recorded ''azumarill'' 500 500 500 500] [0]]"
      and solverTargets = "[contestant ''azumarill'' 150 150 1 1 None]"
      and solverPool = "[contestant ''azumarill'' 150 150 1 1 None]"
      and cp = 2500 and cupName = "''custom''" and sc' = leadsScenario and pass = 3
      and best = "Some 0" and m = "recorded ''azumarill'' 500 500 500 500"
      and pw = "(powr)"]
  have fresh: "\<not> canReuse leadsScenario [0, 1] [0, 1] [] 0 0"
    by (simp add: canReuse_def)
  from inst have "snd (rankPairing duelEngine leadsScenario [0, 1] [0, 1] [] 0 0
        (twoObjects, [], 0, 0))
      = ([] @ [snd (simulatePairing duelEngine leadsScenario twoObjects ([0, 1] ! 0) ([0, 1] ! 0))],
         0, 0 + 1)"
    by (simp only: fresh if_False simp_thms)
  with fresh self_pairing_value self_weight_value show ?thesis by simp
qed

subsection \<open>Symmetric reuse\<close>

lemma canReuse_symmetric:
  assumes "symmetricConfig sc pokemonList targets"
    and "\<forall>r \<in> set rankings. length (rank_matches r) = length targets"
    and "i < length pokemonList"
  shows "canReuse sc pokemonList targets rankings i n \<longleftrightarrow> n < length rankings"
  using assms by (auto simp: canReuse_def symmetricConfig_def)

lemma rankPairing_reuse:
  assumes "canReuse sc pokemonList targets rankings i n"
  shows "rankPairing eng sc pokemonList targets rankings i n (h, ms, avg, t)
    = (h, ms @ [mirroredMatch (speciesId (h (targets ! n))) (rank_matches (rankings ! n) ! i)],
       (if speciesId (h (targets ! n)) \<noteq> speciesId (h (pokemonList ! i))
        then avg + adjOpRating (rank_matches (rankings ! n) ! i) else avg), t)"
  using assms by (simp add: rankPairing_def Let_def)

lemma rankPairing_simulate:
  assumes "\<not> canReuse sc pokemonList targets rankings i n"
  shows "rankPairing eng sc pokemonList targets rankings i n (h, ms, avg, t)
    = (runBattle eng sc h (pokemonList ! i) (targets ! n),
       ms @ [pairingResult (runBattle eng sc h (pokemonList ! i) (targets ! n) (pokemonList ! i))
                           (runBattle eng sc h (pokemonList ! i) (targets ! n) (targets ! n))],
       (if speciesId (h (targets ! n)) \<noteq> speciesId (h (pokemonList ! i))
        then avg + adjRating (pairingResult
                (runBattle eng sc h (pokemonList ! i) (targets ! n) (pokemonList ! i))
                (runBattle eng sc h (pokemonList ! i) (targets ! n) (targets ! n)))
        else avg), Suc t)"
  using assms by (simp add: rankPairing_def simulatePairing_def Let_def)

lemma inner_loop:
  assumes "symmetricConfig sc pokemonList targets"
    and "\<forall>r \<in> set rankings. length (rank_matches r) = length targets"
    and "i < length pokemonList"
  shows "case fold (rankPairing eng sc pokemonList targets rankings i) [0..<k] (h, [], 0, t) of
           (h', ms, avg, t') \<Rightarrow> innerInv pokemonList targets rankings i t k ms t'"
proof (induction k)
  case 0
  show ?case by (simp add: innerInv_def)
next
  case (Suc k)
  obtain h1 ms1 avg1 t1
    where mid: "fold (rankPairing eng sc pokemonList targets rankings i) [0..<k] (h, [], 0, t)
                = (h1, ms1, avg1, t1)"
    by (metis prod_cases4)
  with Suc have inv: "innerInv pokemonList targets rankings i t k ms1 t1" by simp
  have step: "fold (rankPairing eng sc pokemonList targets rankings i) [0..<Suc k] (h, [], 0, t)
      = rankPairing eng sc pokemonList targets rankings i k (h1, ms1, avg1, t1)"
    by (simp add: mid)
  show ?case
  proof (cases "k < length rankings")
    case True
    then have "canReuse sc pokemonList targets rankings i k"
      using canReuse_symmetric [OF assms] by simp
    from rankPairing_reuse [OF this] inv True show ?thesis
      unfolding step
      by (auto simp: innerInv_def nth_append less_Suc_eq min_def)
  next
    case False
    then have "\<not> canReuse sc pokemonList targets rankings i k"
      using canReuse_symmetric [OF assms] by simp
    from rankPairing_simulate [OF this] inv False show ?thesis
      unfolding step
      by (auto simp: innerInv_def nth_append less_Suc_eq min_def)
  qed
qed

lemma rankCandidate_unfold:
  assumes "fold (rankPairing eng sc pokemonList targets rankings i) [0..<length targets]
             (h, [], 0, t) = (h', ms, avg, t')"
  shows "\<exists>r. rankCandidate eng sc pokemonList targets i (h, rankings, t) = (h', rankings @ [r], t')
             \<and> rank_matches r = ms"
  using assms by (simp add: rankCandidate_def Let_def)

lemma outer_loop:
  assumes "symmetricConfig sc pokemonList targets" and "k \<le> length pokemonList"
  shows "case fold (rankCandidate eng sc pokemonList targets) [0..<k] (h, [], 0) of
           (h', rankings, t) \<Rightarrow> outerInv pokemonList targets k rankings t"
  using assms(2)
proof (induction k)
  case 0
  show ?case by (simp add: outerInv_def)
next
  case (Suc k)
  let ?N = "length targets"
  from assms(1) have N: "length pokemonList = ?N" by (simp add: symmetricConfig_def)
  from Suc.prems have k: "k < length pokemonList" by simp
  obtain h1 rs t1
    where mid: "fold (rankCandidate eng sc pokemonList targets) [0..<k] (h, [], 0) = (h1, rs, t1)"
    by (metis prod_cases3)
  with Suc have inv: "outerInv pokemonList targets k rs t1" by simp
  then have len: "length rs = k"
    and mlen: "\<forall>r \<in> set rs. length (rank_matches r) = ?N"
    and cnt: "2 * t1 + k * k = 2 * k * ?N + k"
    and mir: "\<forall>i < k. \<forall>n < i. \<exists>opp.
           rank_matches (rs ! i) ! n = mirroredMatch opp (rank_matches (rs ! n) ! i)"
    and dia: "\<forall>i < k. \<exists>g.
           rank_matches (rs ! i) ! i = pairingResult (g (pokemonList ! i)) (g (targets ! i))"
    by (simp_all add: outerInv_def)
  obtain h2 ms avg t2
    where inner: "fold (rankPairing eng sc pokemonList targets rs k) [0..<?N] (h1, [], 0, t1)
                  = (h2, ms, avg, t2)"
    by (metis prod_cases4)
  from inner_loop [OF assms(1) mlen k, where eng = eng and k = ?N and h = h1 and t = t1] inner
  have iinv: "innerInv pokemonList targets rs k t1 ?N ms t2" by simp
  then have mslen: "length ms = ?N"
    and t2: "t2 = t1 + (?N - k)"
    and msmir: "\<forall>n < k. \<exists>opp. ms ! n = mirroredMatch opp (rank_matches (rs ! n) ! k)"
    and msdia: "\<exists>g. ms ! k = pairingResult (g (pokemonList ! k)) (g (targets ! k))"
    using k N len by (auto simp: innerInv_def min_def)
  from rankCandidate_unfold [OF inner] obtain r
    where r: "rankCandidate eng sc pokemonList targets k (h1, rs, t1) = (h2, rs @ [r], t2)"
      and rms: "rank_matches r = ms"
    by blast
  have step: "fold (rankCandidate eng sc pokemonList targets) [0..<Suc k] (h, [], 0)
      = (h2, rs @ [r], t2)"
    by (simp add: mid r)
  have cnt': "2 * t2 + Suc k * Suc k = 2 * Suc k * ?N + Suc k"
    using cnt t2 k N by (simp add: algebra_simps)
  have mir': "\<forall>i < Suc k. \<forall>n < i. \<exists>opp.
      rank_matches ((rs @ [r]) ! i) ! n = mirroredMatch opp (rank_matches ((rs @ [r]) ! n) ! i)"
  proof (intro allI impI)
    fix i n assume i: "i < Suc k" and n: "n < i"
    show "\<exists>opp. rank_matches ((rs @ [r]) ! i) ! n
            = mirroredMatch opp (rank_matches ((rs @ [r]) ! n) ! i)"
    proof (cases "i < k")
      case True
      with n len mir show ?thesis by (simp add: nth_append)
    next
      case False
      with i have "i = k" by simp
      with n len msmir rms show ?thesis by (simp add: nth_append)
    qed
  qed
  have dia': "\<forall>i < Suc k. \<exists>g.
      rank_matches ((rs @ [r]) ! i) ! i = pairingResult (g (pokemonList ! i)) (g (targets ! i))"
  proof (intro allI impI)
    fix i assume i: "i < Suc k"
    show "\<exists>g. rank_matches ((rs @ [r]) ! i) ! i
            = pairingResult (g (pokemonList ! i)) (g (targets ! i))"
    proof (cases "i < k")
      case True
      with len dia show ?thesis by (simp add: nth_append)
    next
      case False
      with i have "i = k" by simp
      with len msdia rms show ?thesis by (simp add: nth_append)
    qed
  qed
  show ?case
    unfolding step using len mlen mslen rms cnt' mir' dia'
    by (simp add: outerInv_def)
qed

lemma mirroredMatch_sides:
  "rating (mirroredMatch opp m) = opRating m" "opRating (mirroredMatch opp m) = rating m"
  "adjRating (mirroredMatch opp m) = adjOpRating m" "adjOpRating (mirroredMatch opp m) = adjRating m"
  by (simp_all add: mirroredMatch_def)

text \<open>
  Claim C2. In a fully symmetric scenario (pools of the same size \<open>n\<close>, the two
  starting shield counts equal, the two energy-turn values equal) the battle
  loop records \<open>n\<close> matches for each of the \<open>n\<close> candidates and invokes the
  resolver \<open>n(n+1)/2\<close> times in all: for a target whose index is below the
  candidate's the match is the mirrored one with the two sides exchanged, and
  no battle is counted. Hence the raw rating recorded for a pairing is the
  opponent's raw rating recorded for the mirrored pairing; for the pairing of
  an index with itself this holds when the two pools hold the same object at
  that index.
\<close>

theorem symmetric_reuse:
  assumes "length pokemonList = length targets"
    and "fst (scenario_shields sc) = snd (scenario_shields sc)"
    and "fst (scenario_energy sc) = snd (scenario_energy sc)"
  shows "case rankBattles eng sc pokemonList targets h of
           (h', rankings, totalBattles) \<Rightarrow>
             length rankings = length pokemonList
           \<and> (\<forall>r \<in> set rankings. length (rank_matches r) = length targets)
           \<and> 2 * totalBattles = length pokemonList * (length pokemonList + 1)
           \<and> (\<forall>i < length pokemonList. \<forall>n < i. \<exists>opp.
                 rank_matches (rankings ! i) ! n
                   = mirroredMatch opp (rank_matches (rankings ! n) ! i))
           \<and> (\<forall>i < length pokemonList. \<forall>n < length pokemonList.
                 i \<noteq> n \<or> pokemonList ! i = targets ! i \<longrightarrow>
                 rating (rank_matches (rankings ! i) ! n)
                   = opRating (rank_matches (rankings ! n) ! i))"
proof -
  let ?N = "length pokemonList"
  have sym: "symmetricConfig sc pokemonList targets"
    using assms by (simp add: symmetricConfig_def)
  obtain h' rankings t where run: "rankBattles eng sc pokemonList targets h = (h', rankings, t)"
    by (metis prod_cases3)
  with outer_loop [OF sym order_refl, where eng = eng and h = h]
  have inv: "outerInv pokemonList targets ?N rankings t"
    by (simp add: rankBattles_def)
  then have len: "length rankings = ?N"
    and mlen: "\<forall>r \<in> set rankings. length (rank_matches r) = length targets"
    and cnt: "2 * t + ?N * ?N = 2 * ?N * length targets + ?N"
    and mir: "\<forall>i < ?N. \<forall>n < i. \<exists>opp.
           rank_matches (rankings ! i) ! n = mirroredMatch opp (rank_matches (rankings ! n) ! i)"
    and dia: "\<forall>i < ?N. \<exists>g.
           rank_matches (rankings ! i) ! i = pairingResult (g (pokemonList ! i)) (g (targets ! i))"
    by (simp_all add: outerInv_def)
  have total: "2 * t = ?N * (?N + 1)"
    using cnt assms(1) by (simp add: algebra_simps)
  have swap: "rating (rank_matches (rankings ! i) ! n) = opRating (rank_matches (rankings ! n) ! i)"
    if i: "i < ?N" and n: "n < ?N" and c: "i \<noteq> n \<or> pokemonList ! i = targets ! i" for i n
  proof -
    consider "n < i" | "i < n" | "i = n" by linarith
    then show ?thesis
    proof cases
      case 1
      with mir i obtain opp
        where "rank_matches (rankings ! i) ! n = mirroredMatch opp (rank_matches (rankings ! n) ! i)"
        by blast
      then show ?thesis by (simp add: mirroredMatch_sides)
    next
      case 2
      with mir n obtain opp
        where "rank_matches (rankings ! n) ! i = mirroredMatch opp (rank_matches (rankings ! i) ! n)"
        by blast
      then show ?thesis by (simp add: mirroredMatch_sides)
    next
      case 3
      with c have same: "pokemonList ! i = targets ! i" by simp
      from dia i obtain g
        where "rank_matches (rankings ! i) ! i
               = pairingResult (g (pokemonList ! i)) (g (targets ! i))"
        by blast
      with same 3 show ?thesis
        by (simp add: pairingResult_def Let_def split: prod.splits)
    qed
  qed
  from len mlen total mir swap show ?thesis
    unfolding run by simp
qed

text \<open>The resolver of the examples, battle by battle.\<close>

lemma duel_own:
  assumes "p \<noteq> q"
  shows "runBattle duelEngine leadsScenario h p q p
    = (h p)\<lparr>hp := (if stats_hp (h q) < stats_hp (h p) then stats_hp (h p) else 0),
             shields := 1, startingShields := 1, startEnergy := 0\<rparr>"
  using assms
  by (simp add: runBattle_def duelEngine_def leadsScenario_def setEnergyAdvantage_def Let_def)

lemma duel_opp:
  assumes "p \<noteq> q"
  shows "runBattle duelEngine leadsScenario h p q q
    = (h q)\<lparr>hp := (if stats_hp (h p) < stats_hp (h q) then stats_hp (h q) else 0),
             shields := 1, startingShields := 1, startEnergy := 0\<rparr>"
  using assms
  by (simp add: runBattle_def duelEngine_def leadsScenario_def setEnergyAdvantage_def Let_def)

lemma duel_same:
  "runBattle duelEngine leadsScenario h p p p
    = (h p)\<lparr>hp := 0, shields := 1, startingShields := 1, startEnergy := 0\<rparr>"
  by (simp add: runBattle_def duelEngine_def leadsScenario_def setEnergyAdvantage_def Let_def)

lemma duel_other:
  assumes "r \<noteq> p" "r \<noteq> q"
  shows "runBattle duelEngine leadsScenario h p q r = h r"
  using assms
  by (simp add: runBattle_def duelEngine_def leadsScenario_def setEnergyAdvantage_def Let_def)

lemma fainted_own:
  "rawRating (contestant ''azumarill'' 150 0 1 1 None) (contestant ''medicham'' 151 151 1 1 None) = 0"
  by (simp add: rawRating_def healthRating_def damageRating_def fdiv_def fsub_def fadd_def
      fmul_def contestant_def)

lemma fainted_opp:
  "rawRating (contestant ''medicham'' 151 151 1 1 None) (contestant ''azumarill'' 150 0 1 1 None) = 1000"
  by (simp add: rawRating_def healthRating_def damageRating_def fdiv_def fsub_def fadd_def
      fmul_def contestant_def)

lemma tie_own:
  "rawRating (contestant ''azumarill'' 150 0 1 1 None) (contestant ''azumarill'' 150 0 1 1 None) = 500"
  by (simp add: rawRating_def healthRating_def damageRating_def fdiv_def fsub_def fadd_def
      fmul_def contestant_def)

lemma tie_opp:
  "rawRating (contestant ''medicham'' 151 0 1 1 None) (contestant ''medicham'' 151 0 1 1 None) = 500"
  by (simp add: rawRating_def healthRating_def damageRating_def fdiv_def fsub_def fadd_def
      fmul_def contestant_def)

lemma fresh_azumarill:
  "(contestant ''azumarill'' 150 x a b None)\<lparr>hp := y, shields := 1, startingShields := 1, startEnergy := 0\<rparr>
   = contestant ''azumarill'' 150 y 1 1 None"
  by (simp add: contestant_def)

lemma fresh_medicham:
  "(contestant ''medicham'' 151 x a b None)\<lparr>hp := y, shields := 1, startingShields := 1, startEnergy := 0\<rparr>
   = contestant ''medicham'' 151 y 1 1 None"
  by (simp add: contestant_def)

lemma stats_contestant [simp]: "stats_hp (contestant sid m x a b w) = m"
  "speciesId (contestant sid m x a b w) = sid"
  by (simp_all add: contestant_def)

lemma two0: "twoObjects 0 = contestant ''azumarill'' 150 150 0 0 None"
  and two1: "twoObjects (Suc 0) = contestant ''medicham'' 151 151 0 0 None"
  by (simp_all add: twoObjects_def)

theorem symmetric_reuse_witness:
  "length [0, 1 :: ref] = length [0, 1 :: ref]
   \<and> fst (scenario_shields leadsScenario) = snd (scenario_shields leadsScenario)
   \<and> fst (scenario_energy leadsScenario) = snd (scenario_energy leadsScenario)
   \<and> map (\<lambda>r. map rating (rank_matches r))
        (fst (snd (rankBattles duelEngine leadsScenario [0, 1] [0, 1] twoObjects)))
      = [[500, 0], [1000, 500]]
   \<and> map (\<lambda>r. map opRating (rank_matches r))
        (fst (snd (rankBattles duelEngine leadsScenario [0, 1] [0, 1] twoObjects)))
      = [[500, 1000], [0, 500]]
   \<and> snd (snd (rankBattles duelEngine leadsScenario [0, 1] [0, 1] twoObjects)) = 3"
  using symmetric_reuse [where pokemonList = "[0, 1]" and targets = "[0, 1]"
      and sc = leadsScenario and eng = duelEngine and h = twoObjects]
  by (simp add: rankBattles_def rankCandidate_def rankPairing_def canReuse_def
      simulatePairing_def pairingResult_def duel_own duel_opp duel_same duel_other
      two0 two1 fresh_azumarill fresh_medicham fainted_own fainted_opp tie_own tie_opp
      winMultipliers_def mirroredMatch_def or_one_def Let_def
      upt_rec [of 0 2] upt_rec [of 1 2] upt_rec [of 2 2])
    (simp add: leadsScenario_def)

end
